theory Spec2Isabelle
  imports Complex_Main "HOL-Library.Char_ord"
begin

section \<open>Strings of the source language\<close>

text \<open>
  A JavaScript string is modelled as a \<^typ>\<open>string\<close>: a list of code units, each below 256
  (the Latin-1 range). White space and line terminators are the members of that range that
  \<^verbatim>\<open>\s\<close>, \<^verbatim>\<open>String.prototype.trim\<close> and the anchors of a regular expression recognise.
\<close>

definition is_space :: "char \<Rightarrow> bool" where
  "is_space c = (c \<in> set [CHR 0x09, CHR 0x0A, CHR 0x0B, CHR 0x0C, CHR 0x0D, CHR 0x20, CHR 0xA0])"

definition is_line_end :: "char \<Rightarrow> bool" where
  "is_line_end c = (c = CHR 0x0A \<or> c = CHR 0x0D)"

definition is_digit :: "char \<Rightarrow> bool" where
  "is_digit c = (CHR ''0'' \<le> c \<and> c \<le> CHR ''9'')"

definition is_word :: "char \<Rightarrow> bool" where
  "is_word c = ((CHR ''a'' \<le> c \<and> c \<le> CHR ''z'') \<or> (CHR ''A'' \<le> c \<and> c \<le> CHR ''Z'')
     \<or> is_digit c \<or> c = CHR ''_'')"

definition to_upper :: "char \<Rightarrow> char" where
  "to_upper c = (if CHR ''a'' \<le> c \<and> c \<le> CHR ''z'' then char_of (of_char c - (32::nat)) else c)"

definition to_lower :: "char \<Rightarrow> char" where
  "to_lower c = (if CHR ''A'' \<le> c \<and> c \<le> CHR ''Z'' then char_of (of_char c + (32::nat)) else c)"

definition trim :: "string \<Rightarrow> string" where
  "trim s = rev (dropWhile is_space (rev (dropWhile is_space s)))"

definition startsWith :: "string \<Rightarrow> string \<Rightarrow> bool" where
  "startsWith s p = (take (length p) s = p)"

fun includes_str :: "string \<Rightarrow> string \<Rightarrow> bool" where
  "includes_str [] p = (p = [])"
| "includes_str (c # cs) p = (startsWith (c # cs) p \<or> includes_str cs p)"

text \<open>\<^verbatim>\<open>s.split('\n')\<close> and \<^verbatim>\<open>lines.join('\n')\<close>.\<close>

fun split_nl :: "string \<Rightarrow> string list" where
  "split_nl [] = [[]]"
| "split_nl (c # cs) =
     (if c = CHR 0x0A then [] # split_nl cs
      else (case split_nl cs of l # ls \<Rightarrow> (c # l) # ls | [] \<Rightarrow> [[c]]))"

fun join_nl :: "string list \<Rightarrow> string" where
  "join_nl [] = []"
| "join_nl [l] = l"
| "join_nl (l # ls) = l @ CHR 0x0A # join_nl ls"

text \<open>Decimal numerals, as template literals print a non-negative integer.\<close>

fun show_nat :: "nat \<Rightarrow> string" where
  "show_nat n =
     (if n < 10 then [char_of (48 + n)] else show_nat (n div 10) @ [char_of (48 + n mod 10)])"

declare show_nat.simps [simp del]

section \<open>Regular expressions\<close>

text \<open>
  The abstract syntax of the regular expressions the sources use, and a backtracking
  matcher with the priorities of the JavaScript one: alternatives left to right, greedy
  quantifiers, an iteration of a quantifier that consumes nothing is rejected. The matcher
  returns every way to match from a position, the preferred one first.
  A state holds the text already passed (reversed), the text ahead and the captures.
\<close>

datatype citem = CChar char | CRange char char | CSpace | CDigit | CWord

datatype regex =
    Lit string
  | Set "citem list"
  | NSet "citem list"
  | Dot
  | Cat "regex list"
  | Alt "regex list"
  | Star regex
  | Plus regex
  | Opt regex
  | Grp nat regex
  | Backref nat
  | Bol
  | Eol
  | WordB
  | NotAhead regex

record flags =
  ignoreCase :: bool
  multiline :: bool

definition plain :: flags where
  "plain = \<lparr>ignoreCase = False, multiline = False\<rparr>"

definition icase :: flags where
  "icase = \<lparr>ignoreCase = True, multiline = False\<rparr>"

definition mline :: flags where
  "mline = \<lparr>ignoreCase = False, multiline = True\<rparr>"

type_synonym mstate = "string \<times> string \<times> (nat \<times> string) list"

fun citem_ok :: "citem \<Rightarrow> char \<Rightarrow> bool" where
  "citem_ok (CChar d) c = (c = d)"
| "citem_ok (CRange lo hi) c = (lo \<le> c \<and> c \<le> hi)"
| "citem_ok CSpace c = is_space c"
| "citem_ok CDigit c = is_digit c"
| "citem_ok CWord c = is_word c"

definition in_class :: "flags \<Rightarrow> citem list \<Rightarrow> char \<Rightarrow> bool" where
  "in_class fl items c =
     list_ex (\<lambda>it. citem_ok it c \<or>
        (ignoreCase fl \<and> (citem_ok it (to_upper c) \<or> citem_ok it (to_lower c)))) items"

definition canon :: "flags \<Rightarrow> char \<Rightarrow> char" where
  "canon fl c = (if ignoreCase fl then to_upper c else c)"

fun eat_lit :: "flags \<Rightarrow> string \<Rightarrow> mstate \<Rightarrow> mstate list" where
  "eat_lit fl [] st = [st]"
| "eat_lit fl (d # ds) (bef, [], caps) = []"
| "eat_lit fl (d # ds) (bef, c # rest, caps) =
     (if canon fl c = canon fl d then eat_lit fl ds (c # bef, rest, caps) else [])"

definition eat_char :: "(char \<Rightarrow> bool) \<Rightarrow> mstate \<Rightarrow> mstate list" where
  "eat_char ok st =
     (case st of (bef, c # rest, caps) \<Rightarrow> if ok c then [(c # bef, rest, caps)] else []
      | (bef, [], caps) \<Rightarrow> [])"

definition shorter :: "mstate \<Rightarrow> mstate \<Rightarrow> bool" where
  "shorter a b = (length (fst (snd a)) < length (fst (snd b)))"

function star_iter :: "(mstate \<Rightarrow> mstate list) \<Rightarrow> mstate \<Rightarrow> mstate list" where
  "star_iter f st =
     concat (map (\<lambda>st'. if shorter st' st then star_iter f st' else []) (f st)) @ [st]"
  by pat_completeness auto
termination
  by (relation "measure (\<lambda>(f, st). length (fst (snd st)))") (auto simp: shorter_def)

declare star_iter.simps [simp del]

fun cat_all :: "(mstate \<Rightarrow> mstate list) list \<Rightarrow> mstate \<Rightarrow> mstate list" where
  "cat_all [] st = [st]"
| "cat_all (f # fs) st = concat (map (cat_all fs) (f st))"

fun alt_all :: "(mstate \<Rightarrow> mstate list) list \<Rightarrow> mstate \<Rightarrow> mstate list" where
  "alt_all [] st = []"
| "alt_all (f # fs) st = f st @ alt_all fs st"

definition set_group :: "nat \<Rightarrow> mstate \<Rightarrow> mstate \<Rightarrow> mstate" where
  "set_group n st st' =
     (case st' of (bef', rest', caps') \<Rightarrow>
        (bef', rest', (n, rev (take (length bef' - length (fst st)) bef')) # caps'))"

definition group_text :: "(nat \<times> string) list \<Rightarrow> nat \<Rightarrow> string" where
  "group_text caps n = (case map_of caps n of None \<Rightarrow> [] | Some t \<Rightarrow> t)"

definition at_bol :: "flags \<Rightarrow> mstate \<Rightarrow> bool" where
  "at_bol fl st = (case fst st of [] \<Rightarrow> True | c # _ \<Rightarrow> multiline fl \<and> is_line_end c)"

definition at_eol :: "flags \<Rightarrow> mstate \<Rightarrow> bool" where
  "at_eol fl st = (case fst (snd st) of [] \<Rightarrow> True | c # _ \<Rightarrow> multiline fl \<and> is_line_end c)"

definition at_wordb :: "mstate \<Rightarrow> bool" where
  "at_wordb st =
     ((case fst st of [] \<Rightarrow> False | c # _ \<Rightarrow> is_word c) \<noteq>
      (case fst (snd st) of [] \<Rightarrow> False | c # _ \<Rightarrow> is_word c))"

primrec ms :: "flags \<Rightarrow> regex \<Rightarrow> mstate \<Rightarrow> mstate list" where
  "ms fl (Lit s) = eat_lit fl s"
| "ms fl (Set items) = eat_char (in_class fl items)"
| "ms fl (NSet items) = eat_char (\<lambda>c. \<not> in_class fl items c)"
| "ms fl Dot = eat_char (\<lambda>c. \<not> is_line_end c)"
| "ms fl (Cat rs) = cat_all (map (ms fl) rs)"
| "ms fl (Alt rs) = alt_all (map (ms fl) rs)"
| "ms fl (Star r) = star_iter (ms fl r)"
| "ms fl (Plus r) = (\<lambda>st. concat (map (star_iter (ms fl r)) (ms fl r st)))"
| "ms fl (Opt r) = (\<lambda>st. filter (\<lambda>st'. shorter st' st) (ms fl r st) @ [st])"
| "ms fl (Grp n r) = (\<lambda>st. map (set_group n st) (ms fl r st))"
| "ms fl (Backref n) = (\<lambda>st. eat_lit fl (group_text (snd (snd st)) n) st)"
| "ms fl Bol = (\<lambda>st. if at_bol fl st then [st] else [])"
| "ms fl Eol = (\<lambda>st. if at_eol fl st then [st] else [])"
| "ms fl WordB = (\<lambda>st. if at_wordb st then [st] else [])"
| "ms fl (NotAhead r) = (\<lambda>st. if ms fl r st = [] then [st] else [])"

record rmatch =
  before_text :: string
  matched :: string
  groups :: "(nat \<times> string) list"
  after_text :: string

text \<open>The leftmost match at or after a position; \<open>skipped\<close> collects (reversed) the text
  between the start of the search and the match.\<close>

fun search_from :: "flags \<Rightarrow> regex \<Rightarrow> string \<Rightarrow> string \<Rightarrow> string \<Rightarrow> rmatch option" where
  "search_from fl r skipped bef rest =
     (case ms fl r (bef, rest, []) of
        (bef', rest', caps) # _ \<Rightarrow>
          Some \<lparr>before_text = rev skipped,
                matched = rev (take (length bef' - length bef) bef'),
                groups = caps, after_text = rest'\<rparr>
      | [] \<Rightarrow>
          (case rest of [] \<Rightarrow> None
           | c # cs \<Rightarrow> search_from fl r (c # skipped) (c # bef) cs))"

declare search_from.simps [simp del]

text \<open>\<^verbatim>\<open>s.match(re)\<close> and \<^verbatim>\<open>re.test(s)\<close> for a regular expression without the \<^verbatim>\<open>g\<close> flag.\<close>

definition match_re :: "flags \<Rightarrow> regex \<Rightarrow> string \<Rightarrow> rmatch option" where
  "match_re fl r s = search_from fl r [] [] s"

definition test_re :: "flags \<Rightarrow> regex \<Rightarrow> string \<Rightarrow> bool" where
  "test_re fl r s = (match_re fl r s \<noteq> None)"

definition group :: "rmatch \<Rightarrow> nat \<Rightarrow> string" where
  "group m n = group_text (groups m) n"

text \<open>A replacement string with its \<^verbatim>\<open>$n\<close> references.\<close>

datatype rpart = Txt string | Ref nat

fun expand :: "rpart list \<Rightarrow> rmatch \<Rightarrow> string" where
  "expand [] m = []"
| "expand (Txt t # ps) m = t @ expand ps m"
| "expand (Ref n # ps) m = group m n @ expand ps m"

text \<open>\<^verbatim>\<open>s.replace(re, repl)\<close> without the \<^verbatim>\<open>g\<close> flag: the first match only.\<close>

definition replace_first :: "flags \<Rightarrow> regex \<Rightarrow> rpart list \<Rightarrow> string \<Rightarrow> string" where
  "replace_first fl r repl s =
     (case match_re fl r s of None \<Rightarrow> s
      | Some m \<Rightarrow> before_text m @ expand repl m @ after_text m)"

text \<open>\<^verbatim>\<open>s.replace(re, repl)\<close> with the \<^verbatim>\<open>g\<close> flag: every match, left to right, the search
  resuming where the last match ended (one code unit further after an empty match; a match
  is empty exactly when the text ahead did not get shorter).\<close>

function replace_from :: "flags \<Rightarrow> regex \<Rightarrow> rpart list \<Rightarrow> string \<Rightarrow> string \<Rightarrow> string" where
  "replace_from fl r repl bef rest =
     (case ms fl r (bef, rest, []) of
        (bef', rest', caps) # _ \<Rightarrow>
          (let m = \<lparr>before_text = [], matched = rev (take (length bef' - length bef) bef'),
                       groups = caps, after_text = rest'\<rparr>
           in if length rest' < length rest
              then expand repl m @ replace_from fl r repl bef' rest'
              else expand repl m @
                   (case rest of [] \<Rightarrow> []
                    | c # cs \<Rightarrow> c # replace_from fl r repl (c # bef) cs))
      | [] \<Rightarrow>
          (case rest of [] \<Rightarrow> []
           | c # cs \<Rightarrow> c # replace_from fl r repl (c # bef) cs))"
  by pat_completeness auto
termination
  by (relation "measure (\<lambda>(fl, r, repl, bef, rest). length rest)") auto

declare replace_from.simps [simp del]

definition replace_all :: "flags \<Rightarrow> regex \<Rightarrow> rpart list \<Rightarrow> string \<Rightarrow> string" where
  "replace_all fl r repl s = replace_from fl r repl [] s"

section \<open>Time strings (utils/metricsProcessor.js)\<close>

text \<open>
  JavaScript numbers are modelled as exact rationals: \<^verbatim>\<open>parseInt\<close> and \<^verbatim>\<open>parseFloat\<close> of a
  digit string give its value, and the arithmetic is exact. The code's doubles agree with
  this on the integers below \<open>2^53\<close>.
\<close>

fun digits_value :: "nat \<Rightarrow> string \<Rightarrow> nat" where
  "digits_value acc [] = acc"
| "digits_value acc (c # cs) = digits_value (10 * acc + (of_char c - 48)) cs"

definition parseInt_digits :: "string \<Rightarrow> rat" where
  "parseInt_digits s = of_nat (digits_value 0 s)"

text \<open>\<^verbatim>\<open>parseFloat\<close> of a string of the shape \<^verbatim>\<open>\d+(\.\d+)?\<close>.\<close>

definition parseFloat_decimal :: "string \<Rightarrow> rat" where
  "parseFloat_decimal s =
     (let ip = takeWhile is_digit s; fp = drop (Suc (length ip)) s
      in of_nat (digits_value 0 ip) + of_nat (digits_value 0 fp) / of_nat (10 ^ length fp))"

definition digits1 :: regex where
  "digits1 = Plus (Set [CDigit])"

definition spaces0 :: regex where
  "spaces0 = Star (Set [CSpace])"

definition decimal :: regex where
  "decimal = Cat [Plus (Set [CDigit]), Opt (Cat [Lit ''.'', Plus (Set [CDigit])])]"

text \<open>\<^verbatim>\<open>/(\d+)\s*-\s*(\d+)\s*(week|weeks)s?/i\<close>\<close>

definition weekRangeRe :: regex where
  "weekRangeRe = Cat [Grp 1 digits1, spaces0, Lit ''-'', spaces0, Grp 2 digits1, spaces0,
     Grp 3 (Alt [Lit ''week'', Lit ''weeks'']), Opt (Lit ''s'')]"

text \<open>\<^verbatim>\<open>/(\d+)\s*(week|weeks)s?/i\<close>\<close>

definition weeksRe :: regex where
  "weeksRe = Cat [Grp 1 digits1, spaces0, Grp 2 (Alt [Lit ''week'', Lit ''weeks'']), Opt (Lit ''s'')]"

text \<open>\<^verbatim>\<open>/(\d+)\s*-\s*(\d+)\s*(day|days)s?/i\<close>\<close>

definition dayRangeRe :: regex where
  "dayRangeRe = Cat [Grp 1 digits1, spaces0, Lit ''-'', spaces0, Grp 2 digits1, spaces0,
     Grp 3 (Alt [Lit ''day'', Lit ''days'']), Opt (Lit ''s'')]"

text \<open>\<^verbatim>\<open>/(\d+)\s*(day|days)s?/i\<close>\<close>

definition daysRe :: regex where
  "daysRe = Cat [Grp 1 digits1, spaces0, Grp 2 (Alt [Lit ''day'', Lit ''days'']), Opt (Lit ''s'')]"

text \<open>\<^verbatim>\<open>/(\d+(?:\.\d+)?)\s*(hour|hours|hr|h)s?/i\<close>\<close>

definition hoursRe :: regex where
  "hoursRe = Cat [Grp 1 decimal, spaces0,
     Grp 2 (Alt [Lit ''hour'', Lit ''hours'', Lit ''hr'', Lit ''h'']), Opt (Lit ''s'')]"

text \<open>\<^verbatim>\<open>/(\d+(?:\.\d+)?)\s*(minute|minutes|min|m)s?/i\<close>\<close>

definition minutesRe :: regex where
  "minutesRe = Cat [Grp 1 decimal, spaces0,
     Grp 2 (Alt [Lit ''minute'', Lit ''minutes'', Lit ''min'', Lit ''m'']), Opt (Lit ''s'')]"

text \<open>The part of \<^verbatim>\<open>parseTimeToMinutes\<close> after the week and day patterns: hours and minutes
  add up, and a total that is not positive gives \<^verbatim>\<open>null\<close>.\<close>

definition hoursAndMinutes :: "string \<Rightarrow> rat option" where
  "hoursAndMinutes timeString =
     (let totalMinutes = 0;
          totalMinutes = (case match_re icase hoursRe timeString of
                            Some m \<Rightarrow> totalMinutes + parseFloat_decimal (group m 1) * 60
                          | None \<Rightarrow> totalMinutes);
          totalMinutes = (case match_re icase minutesRe timeString of
                            Some m \<Rightarrow> totalMinutes + parseFloat_decimal (group m 1)
                          | None \<Rightarrow> totalMinutes)
      in if totalMinutes > 0 then Some totalMinutes else None)"

text \<open>\<^verbatim>\<open>parseTimeToMinutes\<close>; \<open>None\<close> is \<^verbatim>\<open>null\<close>. The argument is a string (any other value
  gives \<^verbatim>\<open>null\<close> at the first test).\<close>

definition parseTimeToMinutes :: "string \<Rightarrow> rat option" where
  "parseTimeToMinutes timeString =
     (if timeString = [] \<or> timeString = ''Unknown'' then None
      else case match_re icase weekRangeRe timeString of
        Some wr \<Rightarrow>
          (let mn = parseInt_digits (group wr 1); mx = parseInt_digits (group wr 2);
               avgWeeks = (mn + mx) / 2
           in Some (avgWeeks * 5 * 8 * 60))
      | None \<Rightarrow>
      (case match_re icase weeksRe timeString of
        Some w \<Rightarrow> Some (parseInt_digits (group w 1) * 5 * 8 * 60)
      | None \<Rightarrow>
      (case match_re icase dayRangeRe timeString of
        Some dr \<Rightarrow>
          (let mn = parseInt_digits (group dr 1); mx = parseInt_digits (group dr 2);
               avgDays = (mn + mx) / 2
           in Some (avgDays * 8 * 60))
      | None \<Rightarrow>
      (case match_re icase daysRe timeString of
        Some d \<Rightarrow> Some (parseInt_digits (group d 1) * 8 * 60)
      | None \<Rightarrow> hoursAndMinutes timeString))))"

text \<open>\<^verbatim>\<open>x % y\<close> and \<^verbatim>\<open>Math.round\<close> on non-negative numbers.\<close>

definition js_mod :: "rat \<Rightarrow> rat \<Rightarrow> rat" where
  "js_mod x y = x - y * of_int \<lfloor>x / y\<rfloor>"

definition js_round :: "rat \<Rightarrow> nat" where
  "js_round x = nat \<lfloor>x + 1 / 2\<rfloor>"

definition plural :: "nat \<Rightarrow> string" where
  "plural n = (if n \<noteq> 1 then ''s'' else [])"

text \<open>\<^verbatim>\<open>formatMinutesToTime\<close>; the argument \<open>None\<close> is \<^verbatim>\<open>null\<close> or \<^verbatim>\<open>NaN\<close>.\<close>

definition formatMinutesToTime :: "rat option \<Rightarrow> string" where
  "formatMinutesToTime arg =
     (case arg of None \<Rightarrow> ''Unknown''
      | Some minutes \<Rightarrow>
        if minutes < 0 then ''Unknown''
        else if minutes \<ge> 60 * 24 then
          (let days = nat \<lfloor>minutes / (8 * 60)\<rfloor>;
               hours = nat \<lfloor>js_mod minutes (8 * 60) / 60\<rfloor>;
               remainingMinutes = js_round (js_mod minutes 60);
               result = show_nat days @ '' day'' @ plural days;
               result = (if hours > 0 then result @ '' '' @ show_nat hours @ '' hour'' @ plural hours
                         else result);
               result = (if remainingMinutes > 0
                         then result @ '' '' @ show_nat remainingMinutes @ '' minute'' @ plural remainingMinutes
                         else result)
           in result)
        else if minutes \<ge> 60 then
          (let hours = nat \<lfloor>minutes / 60\<rfloor>;
               remainingMinutes = js_round (js_mod minutes 60)
           in show_nat hours @ '' hour'' @ plural hours @
              (if remainingMinutes > 0
               then '' '' @ show_nat remainingMinutes @ '' minute'' @ plural remainingMinutes
               else []))
        else show_nat (js_round minutes) @ '' minute'' @ plural (js_round minutes))"

text \<open>
  The precedence of the time patterns as the specification words it: an ordered table of
  unit patterns (week range, week count, day range, day count), each with its conversion to
  minutes at 8 hours a day and 5 days a week; the first pattern of the table that matches
  decides, and only when none matches are hours and minutes read.
\<close>

definition minutesPerDay :: rat where
  "minutesPerDay = 8 * 60"

definition minutesPerWeek :: rat where
  "minutesPerWeek = 5 * minutesPerDay"

definition rangeAverage :: "rmatch \<Rightarrow> rat" where
  "rangeAverage m = (parseInt_digits (group m 1) + parseInt_digits (group m 2)) / 2"

definition unitPatterns :: "(regex \<times> (rmatch \<Rightarrow> rat)) list" where
  "unitPatterns =
     [(weekRangeRe, \<lambda>m. rangeAverage m * minutesPerWeek),
      (weeksRe, \<lambda>m. parseInt_digits (group m 1) * minutesPerWeek),
      (dayRangeRe, \<lambda>m. rangeAverage m * minutesPerDay),
      (daysRe, \<lambda>m. parseInt_digits (group m 1) * minutesPerDay)]"

fun firstMatching :: "(regex \<times> (rmatch \<Rightarrow> rat)) list \<Rightarrow> string \<Rightarrow> rat option" where
  "firstMatching [] s = None"
| "firstMatching ((re, conv) # ps) s =
     (case match_re icase re s of Some m \<Rightarrow> Some (conv m) | None \<Rightarrow> firstMatching ps s)"

definition parseByPrecedence :: "string \<Rightarrow> rat option" where
  "parseByPrecedence s =
     (if s = [] \<or> s = ''Unknown'' then None
      else case firstMatching unitPatterns s of
             Some v \<Rightarrow> Some v
           | None \<Rightarrow> hoursAndMinutes s)"

definition unitPatternMatches :: "string \<Rightarrow> bool" where
  "unitPatternMatches s =
     (test_re icase weekRangeRe s \<or> test_re icase weeksRe s \<or>
      test_re icase dayRangeRe s \<or> test_re icase daysRe s)"

section \<open>Merging metrics (utils/metricsProcessor.js)\<close>

record stepTime =
  step :: string
  stepName :: string
  time :: string
  timeMinutes :: "rat option"
  stepSource :: "string option"

record metrics =
  totalSteps :: nat
  totalTime :: string
  totalTimeMinutes :: rat
  stepTimes :: "stepTime list option"
  source :: string
  timestamp :: nat

text \<open>\<^verbatim>\<open>createDefaultMetrics\<close>; the clock \<^verbatim>\<open>Date.now()\<close> is a parameter.\<close>

definition createDefaultMetrics :: "nat \<Rightarrow> string \<Rightarrow> metrics" where
  "createDefaultMetrics now src =
     \<lparr>totalSteps = 0, totalTime = ''Unknown'', totalTimeMinutes = 0, stepTimes = Some [],
      source = src, timestamp = now\<rparr>"

text \<open>A JavaScript \<^verbatim>\<open>Map\<close> keeps its keys in insertion order: \<^verbatim>\<open>set\<close> replaces the value of a
  key that is present, where it stands, and appends a new key.\<close>

fun map_set :: "('k \<times> 'v) list \<Rightarrow> 'k \<Rightarrow> 'v \<Rightarrow> ('k \<times> 'v) list" where
  "map_set [] k v = [(k, v)]"
| "map_set ((k', v') # m) k v = (if k' = k then (k, v) # m else (k', v') # map_set m k v)"

definition map_has :: "('k \<times> 'v) list \<Rightarrow> 'k \<Rightarrow> bool" where
  "map_has m k = (k \<in> set (map fst m))"

definition map_values :: "('k \<times> 'v) list \<Rightarrow> 'v list" where
  "map_values m = map snd m"

text \<open>\<^verbatim>\<open>parseInt(s, 10)\<close>: leading white space, an optional sign, then the longest run of
  digits; \<open>None\<close> is \<^verbatim>\<open>NaN\<close>.\<close>

definition parseInt10 :: "string \<Rightarrow> int option" where
  "parseInt10 s =
     (let s1 = dropWhile is_space s;
          sgn = (case s1 of c # _ \<Rightarrow> if c = CHR ''-'' then - 1 else 1 | [] \<Rightarrow> 1);
          s2 = (case s1 of c # r \<Rightarrow> if c = CHR ''-'' \<or> c = CHR ''+'' then r else s1 | [] \<Rightarrow> s1);
          ds = takeWhile is_digit s2
      in if ds = [] then None else Some (sgn * int (digits_value 0 ds)))"

definition MAX_SAFE_INTEGER :: int where
  "MAX_SAFE_INTEGER = 2 ^ 53 - 1"

text \<open>The sort key of the comparator: \<^verbatim>\<open>parseInt(a.step, 10) || Number.MAX_SAFE_INTEGER\<close>.\<close>

definition stepOrder :: "stepTime \<Rightarrow> int" where
  "stepOrder a =
     (case parseInt10 (step a) of None \<Rightarrow> MAX_SAFE_INTEGER
      | Some n \<Rightarrow> if n = 0 then MAX_SAFE_INTEGER else n)"

text \<open>\<^verbatim>\<open>step.timeMinutes || 0\<close>\<close>

definition minutesOrZero :: "stepTime \<Rightarrow> rat" where
  "minutesOrZero e = (case timeMinutes e of None \<Rightarrow> 0 | Some t \<Rightarrow> t)"

definition addDocumentStep :: "(string \<times> stepTime) list \<Rightarrow> stepTime \<Rightarrow> (string \<times> stepTime) list" where
  "addDocumentStep m e = map_set m (step e) (e\<lparr>stepSource := Some ''document''\<rparr>)"

definition addWorkflowStep :: "(string \<times> stepTime) list \<Rightarrow> stepTime \<Rightarrow> (string \<times> stepTime) list" where
  "addWorkflowStep m e =
     (if \<not> map_has m (step e) then map_set m (step e) (e\<lparr>stepSource := Some ''workflow''\<rparr>) else m)"

text \<open>\<^verbatim>\<open>mergeMetrics\<close>. An argument \<open>None\<close> is a missing (falsy) metrics object. The comparator
  orders by the difference of the sort keys and \<^verbatim>\<open>Array.prototype.sort\<close> is stable, which is
  \<^const>\<open>sort_key\<close>.\<close>

definition mergeMetrics :: "nat \<Rightarrow> metrics option \<Rightarrow> metrics option \<Rightarrow> metrics" where
  "mergeMetrics now workflowMetrics documentMetrics =
     (let workflow = (case workflowMetrics of None \<Rightarrow> createDefaultMetrics now ''workflow'' | Some w \<Rightarrow> w);
          document = (case documentMetrics of None \<Rightarrow> createDefaultMetrics now ''document'' | Some d \<Rightarrow> d);
          stepMap = [];
          stepMap = (case stepTimes document of None \<Rightarrow> stepMap
                     | Some ds \<Rightarrow> foldl addDocumentStep stepMap ds);
          stepMap = (case stepTimes workflow of None \<Rightarrow> stepMap
                     | Some ws \<Rightarrow> foldl addWorkflowStep stepMap ws);
          mergedSteps = sort_key stepOrder (map_values stepMap);
          total = foldl (\<lambda>sum e. sum + minutesOrZero e) 0 mergedSteps
      in \<lparr>totalSteps = max (totalSteps workflow) (totalSteps document),
          totalTime = formatMinutesToTime (Some total),
          totalTimeMinutes = total,
          stepTimes = Some mergedSteps,
          source = ''merged'',
          timestamp = now\<rparr>)"

text \<open>The step list of a metrics argument (empty when the object or its list is missing),
  and the entries of a list under a step key.\<close>

definition stepsOf :: "metrics option \<Rightarrow> stepTime list" where
  "stepsOf m = (case m of None \<Rightarrow> [] | Some x \<Rightarrow> (case stepTimes x of None \<Rightarrow> [] | Some l \<Rightarrow> l))"

definition entriesUnder :: "string \<Rightarrow> stepTime list \<Rightarrow> stepTime list" where
  "entriesUnder k xs = filter (\<lambda>e. step e = k) xs"

definition mergedStepList :: "metrics \<Rightarrow> stepTime list" where
  "mergedStepList m = (case stepTimes m of None \<Rightarrow> [] | Some l \<Rightarrow> l)"

definition stepEntry :: "string \<Rightarrow> rat \<Rightarrow> stepTime" where
  "stepEntry k t = \<lparr>step = k, stepName = [], time = [], timeMinutes = Some t, stepSource = None\<rparr>"

definition metricsOf :: "stepTime list \<Rightarrow> metrics" where
  "metricsOf xs = \<lparr>totalSteps = length xs, totalTime = ''Unknown'', totalTimeMinutes = 0,
     stepTimes = Some xs, source = [], timestamp = 0\<rparr>"

text \<open>The invariant of the step map: distinct keys, every entry stored under its own
  step key.\<close>

definition keyed :: "(string \<times> stepTime) list \<Rightarrow> bool" where
  "keyed m = (distinct (map fst m) \<and> list_all (\<lambda>p. step (snd p) = fst p) m)"

section \<open>The syntax validator (utils/workflowGenerator.js)\<close>

definition wordChars :: regex where
  \<open>wordChars = Plus (Set [CRange CHR ''A'' CHR ''Z'', CRange CHR ''a'' CHR ''z'', CRange CHR ''0'' CHR ''9'', CChar CHR ''_''])\<close>

definition notQuote1 :: regex where
  \<open>notQuote1 = Plus (NSet [CChar CHR ''"''])\<close>

text \<open>\<^verbatim>\<open>/^graph\s+(TD|LR|RL|BT)/i\<close>\<close>

definition graphDirectiveRe :: regex where
  \<open>graphDirectiveRe = Cat [Bol, Lit ''graph'', Plus (Set [CSpace]),
     Grp 1 (Alt [Lit ''TD'', Lit ''LR'', Lit ''RL'', Lit ''BT''])]\<close>

text \<open>\<^verbatim>\<open>/-+>/g\<close>, \<^verbatim>\<open>/--[^>]/g\<close>, \<^verbatim>\<open>/<br\s*\/?>/gi\<close>, \<^verbatim>\<open>/<[^>]+>/g\<close>, \<^verbatim>\<open>/'/g\<close>, \<^verbatim>\<open>/[""]/g\<close>,
  \<^verbatim>\<open>/,\s*\]/g\<close>\<close>

definition arrowRe :: regex where
  \<open>arrowRe = Cat [Plus (Lit ''-''), Lit ''>'']\<close>

definition dashesRe :: regex where
  \<open>dashesRe = Cat [Lit ''--'', NSet [CChar CHR ''>'']]\<close>

definition brTagRe :: regex where
  \<open>brTagRe = Cat [Lit ''<br'', Star (Set [CSpace]), Opt (Lit ''/''), Lit ''>'']\<close>

definition tagRe :: regex where
  \<open>tagRe = Cat [Lit ''<'', Plus (NSet [CChar CHR ''>'']), Lit ''>'']\<close>

definition aposRe :: regex where
  \<open>aposRe = Lit [CHR 0x27]\<close>

definition quotesRe :: regex where
  \<open>quotesRe = Set [CChar CHR ''"'', CChar CHR ''"'']\<close>

definition trailingCommaRe :: regex where
  \<open>trailingCommaRe = Cat [Lit '','', Star (Set [CSpace]), Lit '']'']\<close>

text \<open>\<^verbatim>\<open>/\[([^"\]]+\s+[^"\]]+)\]/g\<close>\<close>

definition unquotedLabelRe :: regex where
  \<open>unquotedLabelRe = Cat [Lit ''['',
     Grp 1 (Cat [Plus (NSet [CChar CHR ''"'', CChar CHR '']'']), Plus (Set [CSpace]),
                 Plus (NSet [CChar CHR ''"'', CChar CHR '']''])]),
     Lit '']'']\<close>

text \<open>\<^verbatim>\<open>/([A-Za-z0-9_]+)\s*\[\s*"([^"]+)"\s*\]/g\<close>\<close>

definition nodeDefRe :: regex where
  \<open>nodeDefRe = Cat [Grp 1 wordChars, Star (Set [CSpace]), Lit ''['', Star (Set [CSpace]), Lit ''"'',
     Grp 2 notQuote1, Lit ''"'', Star (Set [CSpace]), Lit '']'']\<close>

text \<open>\<^verbatim>\<open>/^(\s*[A-Za-z0-9_]+\["[^"]+"\])\s*\1/gm\<close>\<close>

definition duplicateDefRe :: regex where
  \<open>duplicateDefRe = Cat [Bol,
     Grp 1 (Cat [Star (Set [CSpace]), wordChars, Lit ''["'', notQuote1, Lit ''"]'']),
     Star (Set [CSpace]), Backref 1]\<close>

text \<open>\<^verbatim>\<open>/^([A-Za-z0-9_]+)(?:\[|\(|\{)/\<close>\<close>

definition nodeStartRe :: regex where
  \<open>nodeStartRe = Cat [Bol, Grp 1 wordChars, Alt [Lit ''['', Lit ''('', Lit ''{'']]\<close>

text \<open>\<^verbatim>\<open>/endNode/\<close>, \<^verbatim>\<open>/\[[^\]]+\]/\<close>\<close>

definition endNodeRe :: regex where
  \<open>endNodeRe = Lit ''endNode''\<close>

definition anyBracketRe :: regex where
  \<open>anyBracketRe = Cat [Lit ''['', Plus (NSet [CChar CHR '']'']), Lit '']'']\<close>

text \<open>\<^verbatim>\<open>/([A-Za-z0-9_]+)\s*\{\s*"([^"]+)"\s*\}/g\<close>\<close>

definition decisionDefRe :: regex where
  \<open>decisionDefRe = Cat [Grp 1 wordChars, Star (Set [CSpace]), Lit ''{'', Star (Set [CSpace]), Lit ''"'',
     Grp 2 notQuote1, Lit ''"'', Star (Set [CSpace]), Lit ''}'']\<close>

text \<open>\<^verbatim>\<open>/-->\|([^|]*[^|"])\|/g\<close>\<close>

definition edgeLabelRe :: regex where
  \<open>edgeLabelRe = Cat [Lit ''-->|'',
     Grp 1 (Cat [Star (NSet [CChar CHR ''|'']), NSet [CChar CHR ''|'', CChar CHR ''"'']]),
     Lit ''|'']\<close>

text \<open>\<^verbatim>\<open>/^(\s*)endNode\s*$/gm\<close>\<close>

definition endNodeLineRe :: regex where
  \<open>endNodeLineRe = Cat [Bol, Grp 1 (Star (Set [CSpace])), Lit ''endNode'', Star (Set [CSpace]), Eol]\<close>

text \<open>\<^verbatim>\<open>/\bendNode\b(?!\s*$)/g\<close>\<close>

definition endNodeWordRe :: regex where
  \<open>endNodeWordRe = Cat [WordB, Lit ''endNode'', WordB, NotAhead (Cat [Star (Set [CSpace]), Eol])]\<close>

text \<open>The chain of replacements before the text is split into lines.\<close>

definition fixCriticalSyntax :: "string \<Rightarrow> string" where
  \<open>fixCriticalSyntax fixed =
     (let fixed = replace_all plain arrowRe [Txt ''-->''] fixed;
          fixed = replace_all plain dashesRe [Txt ''-->''] fixed;
          fixed = replace_all icase brTagRe [Txt '' ''] fixed;
          fixed = replace_all plain tagRe [Txt ''''] fixed;
          fixed = replace_all plain aposRe [Txt ''"''] fixed;
          fixed = replace_all plain quotesRe [Txt ''"''] fixed;
          fixed = replace_all plain trailingCommaRe [Txt '']''] fixed;
          fixed = replace_all plain unquotedLabelRe [Txt ''["'', Ref 1, Txt ''"]''] fixed;
          fixed = replace_all plain nodeDefRe [Ref 1, Txt ''["'', Ref 2, Txt ''"]''] fixed;
          fixed = replace_all mline duplicateDefRe [Ref 1] fixed
      in fixed)\<close>

text \<open>First pass over the lines: the node ids defined in the main flow. A line that starts
  a subgraph makes the scan resume after the next line that is \<^verbatim>\<open>end\<close>.\<close>

definition afterEnd :: "string list \<Rightarrow> string list" where
  "afterEnd ls = (case dropWhile (\<lambda>l. trim l \<noteq> ''end'') ls of [] \<Rightarrow> [] | e # r \<Rightarrow> r)"

lemma length_afterEnd: "length (afterEnd ls) \<le> length ls"
proof -
  have "length (dropWhile (\<lambda>l. trim l \<noteq> ''end'') ls) \<le> length ls"
    by (rule length_dropWhile_le)
  then show ?thesis
    by (auto simp: afterEnd_def split: list.splits)
qed

function collectDefinedNodes :: "string list \<Rightarrow> string list" where
  "collectDefinedNodes [] = []"
| "collectDefinedNodes (l # ls) =
     (let line = trim l in
      if startsWith line ''subgraph'' then collectDefinedNodes (afterEnd ls)
      else (case match_re plain nodeStartRe line of
              Some nodeMatch \<Rightarrow> group nodeMatch 1 # collectDefinedNodes ls
            | None \<Rightarrow> collectDefinedNodes ls))"
  by pat_completeness auto
termination
  by (relation "measure length") (auto simp: length_afterEnd le_imp_less_Suc)

text \<open>Second pass: the state of the loop and one step of it.\<close>

record passState =
  subgraphDepth :: nat
  inSubgraph :: bool
  fixedLines :: "string list"

definition push :: "string \<Rightarrow> passState \<Rightarrow> passState" where
  "push l st = st\<lparr>fixedLines := fixedLines st @ [l]\<rparr>"

definition fixLine :: "string list \<Rightarrow> passState \<Rightarrow> string \<Rightarrow> passState" where
  "fixLine definedNodes st l =
     (let line = trim l in
      if startsWith line ''subgraph''
      then push l (st\<lparr>subgraphDepth := subgraphDepth st + 1, inSubgraph := True\<rparr>)
      else if line = ''end'' \<or> line = ''endNode''
      then (if inSubgraph st \<and> subgraphDepth st > 0
            then (let st1 = push (replace_first plain endNodeRe [Txt ''end''] l) st;
                      st2 = st1\<lparr>subgraphDepth := subgraphDepth st1 - 1\<rparr>
                  in if subgraphDepth st2 = 0 then st2\<lparr>inSubgraph := False\<rparr> else st2)
            else push l st)
      else if inSubgraph st
      then (case match_re plain nodeStartRe line of
              Some nodeMatch \<Rightarrow>
                if group nodeMatch 1 \<in> set definedNodes then push (group nodeMatch 1) st
                else push l st
            | None \<Rightarrow> push l st)
      else push l st)"

definition fixSubgraphs :: "string list \<Rightarrow> passState" where
  "fixSubgraphs lines =
     foldl (fixLine (collectDefinedNodes lines))
       \<lparr>subgraphDepth = 0, inSubgraph = False, fixedLines = []\<rparr> lines"

text \<open>The text after the line pass and the later replacements, before closers are
  appended.\<close>

definition defaultNodes :: string where
  \<open>defaultNodes = ''\<newline>A["Process Start"] --> B["Process End"]''\<close>

definition finishSyntax :: "string \<Rightarrow> string" where
  \<open>finishSyntax fixed =
     (let fixed = (if \<not> test_re plain anyBracketRe fixed then fixed @ defaultNodes else fixed);
          fixed = replace_all plain decisionDefRe [Ref 1, Txt ''{"'', Ref 2, Txt ''"}''] fixed;
          fixed = replace_all plain edgeLabelRe [Txt ''-->|"'', Ref 1, Txt ''"|''] fixed;
          fixed = replace_all mline endNodeLineRe [Ref 1, Txt ''end''] fixed;
          fixed = replace_all plain endNodeWordRe [Txt ''endProcess''] fixed
      in fixed)\<close>

definition normalizeStart :: "string \<Rightarrow> string" where
  \<open>normalizeStart code =
     (let fixed = trim code
      in if \<not> test_re icase graphDirectiveRe fixed then ''graph TD\<newline>'' @ fixed else fixed)\<close>

definition validatedLines :: "string \<Rightarrow> passState" where
  "validatedLines code = fixSubgraphs (split_nl (fixCriticalSyntax (normalizeStart code)))"

definition validatedBody :: "string \<Rightarrow> string" where
  "validatedBody code = finishSyntax (join_nl (fixedLines (validatedLines code)))"

definition closers :: "nat \<Rightarrow> string" where
  \<open>closers n = concat (replicate n ''\<newline>end'')\<close>

text \<open>\<^verbatim>\<open>validateAndFixMermaidSyntax\<close>; the argument \<open>None\<close> is \<^verbatim>\<open>undefined\<close> or \<^verbatim>\<open>null\<close>, and the
  empty string is falsy as well.\<close>

definition validateAndFixMermaidSyntax :: "string option \<Rightarrow> string" where
  \<open>validateAndFixMermaidSyntax arg =
     (case arg of None \<Rightarrow> ''graph TD\<newline>A[No diagram available]''
      | Some code \<Rightarrow>
          if code = [] then ''graph TD\<newline>A[No diagram available]''
          else validatedBody code @ closers (subgraphDepth (validatedLines code)))\<close>

text \<open>Group balance of a diagram text, as a reader scans it: a line whose trimmed text
  starts with \<^verbatim>\<open>subgraph\<close> opens a group, a line whose trimmed text is \<^verbatim>\<open>end\<close> closes the
  innermost open group. The scan fails (\<open>None\<close>) at a closer that has no open group.\<close>

definition isOpener :: "string \<Rightarrow> bool" where
  "isOpener l = startsWith (trim l) ''subgraph''"

definition isCloser :: "string \<Rightarrow> bool" where
  "isCloser l = (trim l = ''end'')"

fun scanGroups :: "nat \<Rightarrow> string list \<Rightarrow> nat option" where
  "scanGroups depth [] = Some depth"
| "scanGroups depth (l # ls) =
     (if isOpener l then scanGroups (Suc depth) ls
      else if isCloser l then (case depth of 0 \<Rightarrow> None | Suc d \<Rightarrow> scanGroups d ls)
      else scanGroups depth ls)"

definition countOpeners :: "string \<Rightarrow> nat" where
  "countOpeners text = length (filter isOpener (split_nl text))"

definition countClosers :: "string \<Rightarrow> nat" where
  "countClosers text = length (filter isCloser (split_nl text))"

definition balanced :: "string \<Rightarrow> bool" where
  "balanced text = (scanGroups 0 (split_nl text) = Some 0 \<and> countOpeners text = countClosers text)"

section \<open>The diagram parser (utils/workflowEditor.js)\<close>

text \<open>Every match of a regular expression with the \<^verbatim>\<open>g\<close> flag, as a loop over \<^verbatim>\<open>re.exec\<close>
  collects them.\<close>

function matches_from :: "flags \<Rightarrow> regex \<Rightarrow> string \<Rightarrow> string \<Rightarrow> rmatch list" where
  "matches_from fl r bef rest =
     (case ms fl r (bef, rest, []) of
        (bef', rest', caps) # _ \<Rightarrow>
          (let m = \<lparr>before_text = [], matched = rev (take (length bef' - length bef) bef'),
                       groups = caps, after_text = rest'\<rparr>
           in if length rest' < length rest
              then m # matches_from fl r bef' rest'
              else m # (case rest of [] \<Rightarrow> []
                        | c # cs \<Rightarrow> matches_from fl r (c # bef) cs))
      | [] \<Rightarrow>
          (case rest of [] \<Rightarrow> []
           | c # cs \<Rightarrow> matches_from fl r (c # bef) cs))"
  by pat_completeness auto
termination
  by (relation "measure (\<lambda>(fl, r, bef, rest). length rest)") auto

declare matches_from.simps [simp del]

definition match_all :: "flags \<Rightarrow> regex \<Rightarrow> string \<Rightarrow> rmatch list" where
  "match_all fl r s = matches_from fl r [] s"

subsection \<open>The model\<close>

datatype nodeKind = Process | Decision | StartEnd

text \<open>The field \<^verbatim>\<open>timeEstimate\<close> of a node object: left out of the object literal, written
  as \<^verbatim>\<open>null\<close>, or a text.\<close>

datatype estimate = Absent | Null | Estimate string

text \<open>A node object. A field the object literal leaves out is \<open>None\<close> (\<open>Absent\<close> for the time
  estimate, \<open>False\<close> for a flag); \<open>line = None\<close> is the node the source calls implicit or
  recovered.\<close>

record node =
  nodeId :: string
  nodeType :: nodeKind
  label :: string
  fullLabel :: string
  timeEstimate :: estimate
  line :: "nat option"
  subgraphs :: "string list option"
  isImplicit :: bool
  isRecovered :: bool
  fromComment :: bool
  foundInConnection :: bool
  foundInFullScan :: bool
  inferredFromSubgraph :: bool

record connection =
  connFrom :: string
  connTo :: string
  connLabel :: string
  connLine :: nat

record subgraph =
  title :: string
  startLine :: nat
  endLine :: nat
  memberNodes :: "string list"

text \<open>
  The \<^verbatim>\<open>nodes\<close> object is a plain JavaScript object: its own properties in insertion
  order, and its prototype. An assignment to the key \<^verbatim>\<open>__proto__\<close> does not create an own
  property, it replaces the prototype (\<open>proto = Some n\<close>); otherwise the prototype is
  \<^verbatim>\<open>Object.prototype\<close>. A read \<^verbatim>\<open>nodes[k]\<close> gives the own property, else what the prototype
  chain holds under \<open>k\<close>: \<open>Opaque\<close> stands for a truthy value that is not a node object (a
  method of \<^verbatim>\<open>Object.prototype\<close>, or a truthy field of a node that became the prototype), on
  which every node field reads \<^verbatim>\<open>undefined\<close>; \<open>Falsy\<close> stands for \<^verbatim>\<open>0\<close>, \<^verbatim>\<open>false\<close> or the empty
  string, on which every node field reads \<^verbatim>\<open>undefined\<close> too; reading a field of \<open>NullValue\<close>
  or \<open>Undefined\<close> is a \<^verbatim>\<open>TypeError\<close>.
\<close>

record nodesObject =
  own :: "(string \<times> node) list"
  proto :: "node option"

datatype jsValue = Undefined | NullValue | Falsy | NodeObj node | Opaque

definition objectPrototypeKeys :: "string list" where
  "objectPrototypeKeys =
     [''constructor'', ''__defineGetter__'', ''__defineSetter__'', ''hasOwnProperty'',
      ''__lookupGetter__'', ''__lookupSetter__'', ''isPrototypeOf'', ''propertyIsEnumerable'',
      ''toString'', ''valueOf'', ''toLocaleString'']"

text \<open>The value of a field of a node object, \<open>None\<close> when the object has no such field. A
  flag that is \<open>False\<close> is read as a field the object does not have: the value would be
  \<^verbatim>\<open>false\<close> or \<^verbatim>\<open>undefined\<close>, both falsy, and nothing reads a field of it.\<close>

definition ofText :: "string \<Rightarrow> jsValue" where
  "ofText t = (if t \<noteq> [] then Opaque else Falsy)"

definition ofFlag :: "bool \<Rightarrow> jsValue option" where
  "ofFlag b = (if b then Some Opaque else None)"

definition fieldValue :: "node \<Rightarrow> string \<Rightarrow> jsValue option" where
  "fieldValue n k =
     (if k = ''id'' then Some (ofText (nodeId n))
      else if k = ''type'' then Some Opaque
      else if k = ''label'' then Some (ofText (label n))
      else if k = ''fullLabel'' then Some (ofText (fullLabel n))
      else if k = ''timeEstimate'' then
        (case timeEstimate n of Absent \<Rightarrow> None | Null \<Rightarrow> Some NullValue | Estimate t \<Rightarrow> Some (ofText t))
      else if k = ''line'' then
        (case line n of None \<Rightarrow> None | Some i \<Rightarrow> Some (if i \<noteq> 0 then Opaque else Falsy))
      else if k = ''subgraphs'' then (case subgraphs n of None \<Rightarrow> None | Some sgs \<Rightarrow> Some Opaque)
      else if k = ''isImplicit'' then ofFlag (isImplicit n)
      else if k = ''isRecovered'' then ofFlag (isRecovered n)
      else if k = ''fromComment'' then ofFlag (fromComment n)
      else if k = ''foundInConnection'' then ofFlag (foundInConnection n)
      else if k = ''foundInFullScan'' then ofFlag (foundInFullScan n)
      else if k = ''inferredFromSubgraph'' then ofFlag (inferredFromSubgraph n)
      else None)"

definition fromObjectPrototype :: "string \<Rightarrow> jsValue" where
  "fromObjectPrototype k = (if k \<in> set objectPrototypeKeys then Opaque else Undefined)"

definition objGet :: "nodesObject \<Rightarrow> string \<Rightarrow> jsValue" where
  "objGet obj k =
     (if k = ''__proto__'' then (case proto obj of Some n \<Rightarrow> NodeObj n | None \<Rightarrow> Opaque)
      else case map_of (own obj) k of
        Some n \<Rightarrow> NodeObj n
      | None \<Rightarrow>
          (case proto obj of
             Some n \<Rightarrow> (case fieldValue n k of Some v \<Rightarrow> v | None \<Rightarrow> fromObjectPrototype k)
           | None \<Rightarrow> fromObjectPrototype k))"

definition objSet :: "nodesObject \<Rightarrow> string \<Rightarrow> node \<Rightarrow> nodesObject" where
  "objSet obj k n =
     (if k = ''__proto__'' then obj\<lparr>proto := Some n\<rparr>
      else obj\<lparr>own := map_set (own obj) k n\<rparr>)"

definition truthy :: "jsValue \<Rightarrow> bool" where
  "truthy v = (case v of NodeObj n \<Rightarrow> True | Opaque \<Rightarrow> True | _ \<Rightarrow> False)"

text \<open>\<^verbatim>\<open>Object.keys(nodes)\<close>\<close>

definition objectKeys :: "nodesObject \<Rightarrow> string list" where
  "objectKeys obj = map fst (own obj)"

record parsedDiagram =
  nodes :: nodesObject
  connections :: "connection list"
  subgraphList :: "subgraph list"

definition emptyNodes :: nodesObject where
  "emptyNodes = \<lparr>own = [], proto = None\<rparr>"

definition newNode :: "string \<Rightarrow> nodeKind \<Rightarrow> string \<Rightarrow> string \<Rightarrow> node" where
  "newNode i k l fl =
     \<lparr>nodeId = i, nodeType = k, label = l, fullLabel = fl, timeEstimate = Absent, line = None,
      subgraphs = None, isImplicit = False, isRecovered = False, fromComment = False,
      foundInConnection = False, foundInFullScan = False, inferredFromSubgraph = False\<rparr>"

subsection \<open>First pass: subgraph boundaries\<close>

text \<open>\<^verbatim>\<open>/subgraph\s+"?([^"]+)"?/\<close>\<close>

definition subgraphTitleRe :: regex where
  \<open>subgraphTitleRe = Cat [Lit ''subgraph'', Plus (Set [CSpace]), Opt (Lit ''"''), Grp 1 notQuote1, Opt (Lit ''"'')]\<close>

text \<open>The inner loop: the index of the \<^verbatim>\<open>end\<close> line that brings the nesting level to zero.\<close>

fun findEnd :: "nat \<Rightarrow> nat \<Rightarrow> string list \<Rightarrow> nat option" where
  "findEnd nestingLevel j [] = None"
| "findEnd nestingLevel j (l # ls) =
     (let nestedLine = trim l in
      if startsWith nestedLine ''subgraph '' then findEnd (nestingLevel + 1) (j + 1) ls
      else if nestedLine = ''end''
      then (if nestingLevel - 1 = 0 then Some j else findEnd (nestingLevel - 1) (j + 1) ls)
      else findEnd nestingLevel (j + 1) ls)"

function collectSubgraphs :: "string list \<Rightarrow> nat \<Rightarrow> subgraph list" where
  "collectSubgraphs lines i =
     (if i < length lines then
        (let ln = trim (lines ! i) in
         if startsWith ln ''subgraph '' then
           (let subgraphTitle = (case match_re plain subgraphTitleRe ln of
                                   Some titleMatch \<Rightarrow> group titleMatch 1 | None \<Rightarrow> [])
            in case findEnd 1 (i + 1) (drop (i + 1) lines) of
                 Some endLn \<Rightarrow>
                   if endLn > i
                   then \<lparr>title = subgraphTitle, startLine = i, endLine = endLn, memberNodes = []\<rparr>
                        # collectSubgraphs lines (endLn + 1)
                   else collectSubgraphs lines (i + 1)
               | None \<Rightarrow> collectSubgraphs lines (i + 1))
         else collectSubgraphs lines (i + 1))
      else [])"
  by pat_completeness auto
termination
  by (relation "measure (\<lambda>(lines, i). length lines - i)") auto

declare collectSubgraphs.simps [simp del]

subsection \<open>Second pass: nodes and connections\<close>

text \<open>\<^verbatim>\<open>/^([A-Za-z0-9_]+)\s*\[\s*"([^"]+)"\s*\]/\<close>, \<^verbatim>\<open>/^([A-Za-z0-9_]+)\s*\{\s*"([^"]+)"\s*\}/\<close>,
  \<^verbatim>\<open>/^([A-Za-z0-9_]+)\s*\(\[\s*"([^"]+)"\s*\]\)/\<close>\<close>

definition quotedLabel :: "string \<Rightarrow> nat \<Rightarrow> string \<Rightarrow> regex list" where
  \<open>quotedLabel opening g closing =
     [Star (Set [CSpace]), Lit opening, Star (Set [CSpace]), Lit ''"'', Grp g notQuote1, Lit ''"'',
      Star (Set [CSpace]), Lit closing]\<close>

definition processNodeRe :: regex where
  \<open>processNodeRe = Cat ([Bol, Grp 1 wordChars] @ quotedLabel ''['' 2 '']'')\<close>

definition decisionNodeRe :: regex where
  \<open>decisionNodeRe = Cat ([Bol, Grp 1 wordChars] @ quotedLabel ''{'' 2 ''}'')\<close>

definition startEndNodeRe :: regex where
  \<open>startEndNodeRe = Cat ([Bol, Grp 1 wordChars] @ quotedLabel ''(['' 2 ''])'')\<close>

text \<open>\<^verbatim>\<open>/\(([^)]+)\)$/\<close>\<close>

definition timeSuffixRe :: regex where
  \<open>timeSuffixRe = Cat [Lit ''('', Grp 1 (Plus (NSet [CChar CHR '')''])), Lit '')'', Eol]\<close>

text \<open>\<^verbatim>\<open>/([A-Za-z0-9_]+)\s*-->\|"([^"]+)"\|\s*([A-Za-z0-9_]+)/\<close>,
  \<^verbatim>\<open>/([A-Za-z0-9_]+)\s*-->\s*([A-Za-z0-9_]+)/\<close>\<close>

definition labeledConnectionRe :: regex where
  \<open>labeledConnectionRe = Cat [Grp 1 wordChars, Star (Set [CSpace]), Lit ''-->|"'', Grp 2 notQuote1,
     Lit ''"|'', Star (Set [CSpace]), Grp 3 wordChars]\<close>

definition basicConnectionRe :: regex where
  \<open>basicConnectionRe = Cat [Grp 1 wordChars, Star (Set [CSpace]), Lit ''-->'', Star (Set [CSpace]),
     Grp 2 wordChars]\<close>

text \<open>A node label with its time estimate split off, when it ends in a parenthesised
  clause. A process or decision node declared on a line of its own has
  \<^verbatim>\<open>timeEstimate: null\<close> otherwise.\<close>

definition withTime :: "node \<Rightarrow> node" where
  "withTime n =
     (case match_re plain timeSuffixRe (fullLabel n) of
        Some timeMatch \<Rightarrow>
          n\<lparr>label := trim (take (length (fullLabel n) - length (matched timeMatch)) (fullLabel n)),
            timeEstimate := Estimate (group timeMatch 1)\<rparr>
      | None \<Rightarrow> n)"

definition addMember :: "nat \<Rightarrow> string \<Rightarrow> subgraph \<Rightarrow> subgraph" where
  "addMember i ident sg =
     (if i > startLine sg \<and> i < endLine sg \<and> ident \<notin> set (memberNodes sg)
      then sg\<lparr>memberNodes := memberNodes sg @ [ident]\<rparr> else sg)"

definition declareNode :: "nat \<Rightarrow> node \<Rightarrow> parsedDiagram \<Rightarrow> parsedDiagram" where
  "declareNode i n p =
     (let currentSubgraphs = filter (\<lambda>sg. i > startLine sg \<and> i < endLine sg) (subgraphList p);
          n' = n\<lparr>line := Some i, subgraphs := Some (map title currentSubgraphs)\<rparr>
      in p\<lparr>nodes := objSet (nodes p) (nodeId n) n',
           subgraphList := map (addMember i (nodeId n)) (subgraphList p)\<rparr>)"

definition parseLine :: "parsedDiagram \<Rightarrow> nat \<times> string \<Rightarrow> parsedDiagram" where
  "parseLine p il =
     (let i = fst il; ln = trim (snd il) in
      if ln = [] \<or> startsWith ln ''%%'' \<or> startsWith ln ''graph '' then p
      else if startsWith ln ''subgraph '' \<or> ln = ''end'' then p
      else case match_re plain processNodeRe ln of
        Some m \<Rightarrow> declareNode i
                    (withTime ((newNode (group m 1) Process (group m 2) (group m 2))\<lparr>timeEstimate := Null\<rparr>)) p
      | None \<Rightarrow>
      (case match_re plain decisionNodeRe ln of
        Some m \<Rightarrow> declareNode i
                    (withTime ((newNode (group m 1) Decision (group m 2) (group m 2))\<lparr>timeEstimate := Null\<rparr>)) p
      | None \<Rightarrow>
      (case match_re plain startEndNodeRe ln of
        Some m \<Rightarrow> declareNode i (newNode (group m 1) StartEnd (group m 2) (group m 2)) p
      | None \<Rightarrow>
      (case match_re plain labeledConnectionRe ln of
        Some m \<Rightarrow> p\<lparr>connections := connections p @
                      [\<lparr>connFrom = group m 1, connTo = group m 3, connLabel = group m 2, connLine = i\<rparr>]\<rparr>
      | None \<Rightarrow>
      (case match_re plain basicConnectionRe ln of
        Some m \<Rightarrow> p\<lparr>connections := connections p @
                      [\<lparr>connFrom = group m 1, connTo = group m 2, connLabel = [], connLine = i\<rparr>]\<rparr>
      | None \<Rightarrow> p)))))"

subsection \<open>Third to sixth pass\<close>

text \<open>The patterns built from a node id: \<^verbatim>\<open>new RegExp(`${nodeId}\\s*\\[\\s*"([^"]+)"\\s*\\]`)\<close>
  and its two siblings. A node id consists of word characters, so it stands for itself.\<close>

definition processNodePattern :: "string \<Rightarrow> regex" where
  \<open>processNodePattern ident = Cat (Lit ident # quotedLabel ''['' 1 '']'')\<close>

definition startEndNodePattern :: "string \<Rightarrow> regex" where
  \<open>startEndNodePattern ident = Cat (Lit ident # quotedLabel ''(['' 1 ''])'')\<close>

definition decisionNodePattern :: "string \<Rightarrow> regex" where
  \<open>decisionNodePattern ident = Cat (Lit ident # quotedLabel ''{'' 1 ''}'')\<close>

definition resolveEndpoint :: "string \<Rightarrow> nodesObject \<Rightarrow> string \<Rightarrow> nodesObject" where
  "resolveEndpoint diagramCode obj ident =
     (if \<not> truthy (objGet obj ident) then
        (case match_re plain (processNodePattern ident) diagramCode of
           Some m \<Rightarrow>
             objSet obj ident (withTime ((newNode ident Process (group m 1) (group m 1))\<lparr>isRecovered := True\<rparr>))
         | None \<Rightarrow>
         (case match_re plain (startEndNodePattern ident) diagramCode of
           Some m \<Rightarrow>
             objSet obj ident ((newNode ident StartEnd (group m 1) (group m 1))\<lparr>isRecovered := True\<rparr>)
         | None \<Rightarrow>
         (case match_re plain (decisionNodePattern ident) diagramCode of
           Some m \<Rightarrow>
             objSet obj ident ((newNode ident Decision (group m 1) (group m 1))\<lparr>isRecovered := True\<rparr>)
         | None \<Rightarrow>
             objSet obj ident ((newNode ident Process ident ident)\<lparr>isImplicit := True\<rparr>))))
      else obj)"

definition resolveConnection :: "string \<Rightarrow> nodesObject \<Rightarrow> connection \<Rightarrow> nodesObject" where
  "resolveConnection diagramCode obj conn =
     resolveEndpoint diagramCode (resolveEndpoint diagramCode obj (connFrom conn)) (connTo conn)"

text \<open>\<^verbatim>\<open>/%%\s*([A-Za-z0-9_]+)\s*:\s*(.*)/\<close>\<close>

definition commentRe :: regex where
  \<open>commentRe = Cat [Lit ''%%'', Star (Set [CSpace]), Grp 1 wordChars, Star (Set [CSpace]), Lit '':'',
     Star (Set [CSpace]), Grp 2 (Star Dot)]\<close>

definition describeFromComment :: "nodesObject \<Rightarrow> string \<Rightarrow> nodesObject" where
  "describeFromComment obj l =
     (let ln = trim l in
      if startsWith ln ''%%'' \<and> includes_str ln '':'' then
        (case match_re plain commentRe ln of
           Some nodeDescMatch \<Rightarrow>
             (case objGet obj (group nodeDescMatch 1) of
                NodeObj n \<Rightarrow>
                  if isImplicit n \<or> label n = group nodeDescMatch 1
                  then objSet obj (group nodeDescMatch 1)
                         (n\<lparr>label := trim (group nodeDescMatch 2),
                            fullLabel := trim (group nodeDescMatch 2),
                            isImplicit := False, fromComment := True\<rparr>)
                  else obj
              | _ \<Rightarrow> obj)
         | None \<Rightarrow> obj)
      else obj)"

definition endNodeInConnection :: "string list \<Rightarrow> nodesObject \<Rightarrow> connection \<Rightarrow> nodesObject" where
  "endNodeInConnection lines obj conn =
     (if connLine conn < length lines then
        (case match_re plain (startEndNodePattern (connTo conn)) (lines ! connLine conn) of
           Some endNodeMatch \<Rightarrow>
             if connTo conn \<noteq> [] then
               objSet obj (connTo conn)
                 ((newNode (connTo conn) StartEnd (group endNodeMatch 1) (group endNodeMatch 1))
                    \<lparr>isRecovered := True, foundInConnection := True, line := Some (connLine conn)\<rparr>)
             else obj
         | None \<Rightarrow> obj)
      else obj)"

text \<open>\<^verbatim>\<open>/([A-Za-z0-9_]+)\s*\(\[\s*"([^"]+)"\s*\]\)/g\<close>\<close>

definition fullDiagramStartEndPattern :: regex where
  \<open>fullDiagramStartEndPattern = Cat (Grp 1 wordChars # quotedLabel ''(['' 2 ''])'')\<close>

definition fullScanStep :: "nodesObject \<Rightarrow> rmatch \<Rightarrow> nodesObject" where
  "fullScanStep obj m =
     (if (case objGet obj (group m 1) of NodeObj n \<Rightarrow> isImplicit n | Opaque \<Rightarrow> False | _ \<Rightarrow> True)
      then objSet obj (group m 1)
             ((newNode (group m 1) StartEnd (group m 2) (group m 2))
                \<lparr>isRecovered := True, foundInFullScan := True\<rparr>)
      else obj)"

definition inferFromSubgraph :: "string \<times> node \<Rightarrow> string \<times> node" where
  "inferFromSubgraph kn =
     (case kn of (k, n) \<Rightarrow>
        (case subgraphs n of
           Some (subgraphTitle # others) \<Rightarrow>
             if length k = 1 \<and> label n = k
             then (k, n\<lparr>label := subgraphTitle @ '' Node '' @ k,
                        fullLabel := subgraphTitle @ '' Node '' @ k,
                        inferredFromSubgraph := True\<rparr>)
             else (k, n)
         | _ \<Rightarrow> (k, n)))"

text \<open>\<^verbatim>\<open>parseMermaidDiagram\<close>. The argument is a string; the empty string is falsy and gives
  the empty model.\<close>

definition emptyDiagram :: parsedDiagram where
  "emptyDiagram = \<lparr>nodes = emptyNodes, connections = [], subgraphList = []\<rparr>"

definition parseMermaidDiagram :: "string \<Rightarrow> parsedDiagram" where
  "parseMermaidDiagram diagramCode =
     (if diagramCode = [] then emptyDiagram
      else
        let lines = split_nl diagramCode;
            p1 = emptyDiagram\<lparr>subgraphList := collectSubgraphs lines 0\<rparr>;
            p2 = foldl parseLine p1 (zip [0 ..< length lines] lines);
            obj3 = foldl (resolveConnection diagramCode) (nodes p2) (connections p2);
            obj4 = foldl describeFromComment obj3 lines;
            obj5 = foldl (endNodeInConnection lines) obj4 (connections p2);
            obj6 = foldl fullScanStep obj5 (match_all plain fullDiagramStartEndPattern diagramCode);
            obj7 = obj6\<lparr>own := map inferFromSubgraph (own obj6)\<rparr>
        in p2\<lparr>nodes := obj7\<rparr>)"

section \<open>The diagram mutators (utils/workflowEditor.js)\<close>

subsection \<open>String replacement\<close>

text \<open>The replacement patterns of \<^verbatim>\<open>String.prototype.replace\<close> in a replacement string:
  \<^verbatim>\<open>$$\<close>, \<^verbatim>\<open>$&\<close>, \<^verbatim>\<open>$`\<close>, \<^verbatim>\<open>$'\<close> and \<^verbatim>\<open>$n\<close>, \<^verbatim>\<open>$nn\<close> for the captures \<open>1 .. m\<close> of the pattern.\<close>

definition digit_of :: "char \<Rightarrow> nat" where
  "digit_of c = of_char c - 48"

fun substitute :: "nat \<Rightarrow> rmatch \<Rightarrow> string \<Rightarrow> string" where
  "substitute m mt [] = []"
| "substitute m mt [c] = [c]"
| "substitute m mt (c # d # r) =
     (if c \<noteq> CHR ''$'' then c # substitute m mt (d # r)
      else if d = CHR ''$'' then CHR ''$'' # substitute m mt r
      else if d = CHR ''&'' then matched mt @ substitute m mt r
      else if d = CHR 0x60 then before_text mt @ substitute m mt r
      else if d = CHR 0x27 then after_text mt @ substitute m mt r
      else if is_digit d then
        (case r of
           e # r' \<Rightarrow>
             if is_digit e \<and> 1 \<le> 10 * digit_of d + digit_of e \<and> 10 * digit_of d + digit_of e \<le> m
             then group mt (10 * digit_of d + digit_of e) @ substitute m mt r'
             else if 1 \<le> digit_of d \<and> digit_of d \<le> m
             then group mt (digit_of d) @ substitute m mt r
             else c # substitute m mt (d # r)
         | [] \<Rightarrow>
             if 1 \<le> digit_of d \<and> digit_of d \<le> m then group mt (digit_of d)
             else [c, d])
      else c # substitute m mt (d # r))"

text \<open>\<^verbatim>\<open>s.replace(pattern, replacement)\<close> for a string pattern: its first occurrence.\<close>

fun find_sub :: "string \<Rightarrow> string \<Rightarrow> (string \<times> string) option" where
  "find_sub p [] = (if p = [] then Some ([], []) else None)"
| "find_sub p (c # cs) =
     (if startsWith (c # cs) p then Some ([], drop (length p) (c # cs))
      else map_option (\<lambda>ba. (c # fst ba, snd ba)) (find_sub p cs))"

definition replaceStr :: "string \<Rightarrow> string \<Rightarrow> string \<Rightarrow> string" where
  "replaceStr s pat repl =
     (case find_sub pat s of
        None \<Rightarrow> s
      | Some ba \<Rightarrow>
          fst ba @
          substitute 0 \<lparr>before_text = fst ba, matched = pat, groups = [], after_text = snd ba\<rparr> repl @
          snd ba)"

text \<open>\<^verbatim>\<open>s.replace(re, replacement)\<close> for a regular expression without the \<^verbatim>\<open>g\<close> flag that has
  \<open>m\<close> captures, and a replacement string.\<close>

definition replaceRe :: "regex \<Rightarrow> nat \<Rightarrow> string \<Rightarrow> string \<Rightarrow> string" where
  "replaceRe r m s repl =
     (case match_re plain r s of
        None \<Rightarrow> s
      | Some mt \<Rightarrow> before_text mt @ substitute m mt repl @ after_text mt)"

text \<open>\<^verbatim>\<open>lines.splice(at, 0, x)\<close>: an index beyond the end inserts at the end.\<close>

definition splice_in :: "nat \<Rightarrow> 'a \<Rightarrow> 'a list \<Rightarrow> 'a list" where
  "splice_in pos x xs = take pos xs @ x # drop pos xs"

datatype error =
    NodeNotFoundInDiagram string
  | NodeNotFound string
  | CouldNotParseNode string
  | NodeAlreadyExists string
  | MinimumNodes
  | TypeError
  | SyntaxError

subsection \<open>updateNodeTimeEstimate\<close>

text \<open>The position after which a materialised node is inserted: the last line that starts
  a node definition and is no connection (line 0 when there is none).
  \<^verbatim>\<open>/^[A-Za-z0-9_]+\s*\[/\<close>, \<^verbatim>\<open>/^[A-Za-z0-9_]+\s*\{/\<close>, \<^verbatim>\<open>/^[A-Za-z0-9_]+\s*\(\[/\<close>\<close>

definition definitionStartRe :: "string \<Rightarrow> regex" where
  "definitionStartRe opening = Cat [Bol, wordChars, Star (Set [CSpace]), Lit opening]"

definition looksLikeDefinition :: "string \<Rightarrow> bool" where
  "looksLikeDefinition l =
     (let ln = trim l in
      (test_re plain (definitionStartRe ''['') ln \<or> test_re plain (definitionStartRe ''{'') ln \<or>
       test_re plain (definitionStartRe ''(['') ln) \<and> \<not> includes_str ln ''-->'')"

definition lastDefinition :: "string list \<Rightarrow> nat" where
  "lastDefinition lines =
     foldl (\<lambda>insertPosition i. if looksLikeDefinition (lines ! i) then i else insertPosition)
       0 [0 ..< length lines]"

definition labelOrId :: "node \<Rightarrow> string \<Rightarrow> string" where
  "labelOrId n ident = (if label n \<noteq> [] then label n else ident)"

text \<open>The definition line written for a node that has no line of its own.\<close>

definition materialise :: "node \<Rightarrow> string \<Rightarrow> string \<Rightarrow> string" where
  \<open>materialise n ident newTimeEstimate =
     (case nodeType n of
        Process \<Rightarrow> ident @ ''["'' @ labelOrId n ident @ '' ('' @ newTimeEstimate @ '')"]''
      | StartEnd \<Rightarrow> ident @ ''(["'' @ labelOrId n ident @ ''"])''
      | Decision \<Rightarrow> ident @ ''{"'' @ labelOrId n ident @ ''"}'')\<close>

text \<open>The source text of the pattern built from the id and the label:
  \<^verbatim>\<open>`(${nodeId}\\s*\\[\\s*"${node.label}\\s*)\\([^)]+\\)(\\s*"\\s*\\])`\<close>. The label is arbitrary
  text, so what \<^verbatim>\<open>new RegExp\<close> makes of this source is a parameter \<open>compileRegExp\<close> of the
  model: the expression and the number of its captures, or \<open>None\<close> for a syntax error.\<close>

definition bs :: string where
  "bs = [CHR 0x5C]"

definition timeEstimateSource :: "string \<Rightarrow> string \<Rightarrow> string" where
  \<open>timeEstimateSource ident lbl =
     ''('' @ ident @ bs @ ''s*'' @ bs @ ''['' @ bs @ ''s*"'' @ lbl @ bs @ ''s*)'' @
     bs @ ''([^)]+'' @ bs @ '')('' @ bs @ ''s*"'' @ bs @ ''s*'' @ bs @ ''])''\<close>

definition setTimeOnLine ::
  "(string \<Rightarrow> (regex \<times> nat) option) \<Rightarrow> node \<Rightarrow> string \<Rightarrow> string \<Rightarrow> string \<Rightarrow> error + string" where
  \<open>setTimeOnLine compileRegExp n ident newTimeEstimate currentLine =
     (let nodePattern = processNodePattern ident;
          withNew = ident @ ''["'' @ label n @ '' ('' @ newTimeEstimate @ '')"]''
      in if \<not> test_re plain nodePattern currentLine then Inl (CouldNotParseNode ident)
         else if (case timeEstimate n of Estimate t \<Rightarrow> t = [] | _ \<Rightarrow> True)
         then Inr (replaceStr currentLine (ident @ ''["'' @ label n @ ''"]'') withNew)
         else if fullLabel n \<noteq> [] \<and> includes_str (fullLabel n) ''(''
         then Inr (replaceStr currentLine (ident @ ''["'' @ fullLabel n @ ''"]'') withNew)
         else (case compileRegExp (timeEstimateSource ident (label n)) of
                 None \<Rightarrow> Inl SyntaxError
               | Some rm \<Rightarrow>
                   if test_re plain (fst rm) currentLine
                   then Inr (replaceRe (fst rm) (snd rm) currentLine
                               (''$1('' @ newTimeEstimate @ '')$2''))
                   else Inr (replaceRe nodePattern 1 currentLine withNew)))\<close>

definition updateNodeTimeEstimate ::
  "(string \<Rightarrow> (regex \<times> nat) option) \<Rightarrow> string \<Rightarrow> string \<Rightarrow> string \<Rightarrow> error + string" where
  "updateNodeTimeEstimate compileRegExp diagramCode ident newTimeEstimate =
     (let lines = split_nl diagramCode in
      case objGet (nodes (parseMermaidDiagram diagramCode)) ident of
        Undefined \<Rightarrow> Inl (NodeNotFoundInDiagram ident)
      | NullValue \<Rightarrow> Inl (NodeNotFoundInDiagram ident)
      | Falsy \<Rightarrow> Inl (NodeNotFoundInDiagram ident)
      | Opaque \<Rightarrow> Inr (validateAndFixMermaidSyntax None)
      | NodeObj n \<Rightarrow>
          (case (if isImplicit n then None else line n) of
             None \<Rightarrow>
               Inr (validateAndFixMermaidSyntax
                      (Some (join_nl (splice_in (lastDefinition lines + 1)
                                        (materialise n ident newTimeEstimate) lines))))
           | Some i \<Rightarrow>
               (case nodeType n of
                  Process \<Rightarrow>
                    if i < length lines then
                      (case setTimeOnLine compileRegExp n ident newTimeEstimate (lines ! i) of
                         Inl e \<Rightarrow> Inl e
                       | Inr l \<Rightarrow> Inr (validateAndFixMermaidSyntax (Some (join_nl (lines[i := l])))))
                    else Inl TypeError
                | _ \<Rightarrow> Inr (validateAndFixMermaidSyntax (Some (join_nl lines))))))"

subsection \<open>updateNodeLabel\<close>

text \<open>The declaration text of a node: \<^verbatim>\<open>id["label"]\<close>, \<^verbatim>\<open>id{"label"}\<close> or \<^verbatim>\<open>id(["label"])\<close>.\<close>

definition declarationText :: "nodeKind \<Rightarrow> string \<Rightarrow> string \<Rightarrow> string" where
  \<open>declarationText k ident lbl =
     (case k of
        Process \<Rightarrow> ident @ ''["'' @ lbl @ ''"]''
      | Decision \<Rightarrow> ident @ ''{"'' @ lbl @ ''"}''
      | StartEnd \<Rightarrow> ident @ ''(["'' @ lbl @ ''"])'')\<close>

text \<open>\<^verbatim>\<open>node.timeEstimate ? ` (${node.timeEstimate})` : ''\<close>\<close>

definition timeSuffix :: "node \<Rightarrow> string" where
  \<open>timeSuffix n =
     (case timeEstimate n of
        Estimate t \<Rightarrow> if t \<noteq> [] then '' ('' @ t @ '')'' else []
      | _ \<Rightarrow> [])\<close>

text \<open>The edit of the declaration line, by node type: only the branch of a process node
  puts the time estimate behind the new label.\<close>

definition relabelled :: "node \<Rightarrow> string \<Rightarrow> string \<Rightarrow> string \<Rightarrow> string" where
  "relabelled n ident lbl l =
     (case nodeType n of
        Process \<Rightarrow>
          replaceStr l (declarationText Process ident (fullLabel n))
            (declarationText Process ident (lbl @ timeSuffix n))
      | Decision \<Rightarrow>
          replaceStr l (declarationText Decision ident (fullLabel n))
            (declarationText Decision ident lbl)
      | StartEnd \<Rightarrow>
          replaceStr l (declarationText StartEnd ident (fullLabel n))
            (declarationText StartEnd ident lbl))"

definition updateNodeLabel :: "string \<Rightarrow> string \<Rightarrow> string \<Rightarrow> error + string" where
  "updateNodeLabel diagramCode ident newLabel =
     (let lines = split_nl diagramCode in
      case objGet (nodes (parseMermaidDiagram diagramCode)) ident of
        Undefined \<Rightarrow> Inl (NodeNotFoundInDiagram ident)
      | NullValue \<Rightarrow> Inl (NodeNotFoundInDiagram ident)
      | Falsy \<Rightarrow> Inl (NodeNotFoundInDiagram ident)
      | Opaque \<Rightarrow> Inr (validateAndFixMermaidSyntax (Some (join_nl lines)))
      | NodeObj n \<Rightarrow>
          (case line n of
             None \<Rightarrow> Inl TypeError
           | Some i \<Rightarrow>
               if i < length lines
               then Inr (validateAndFixMermaidSyntax
                           (Some (join_nl (lines[i := relabelled n ident newLabel (lines ! i)]))))
               else Inl TypeError))"

subsection \<open>addNode\<close>

record nodeDetails =
  newId :: "string option"
  newLabel :: string
  newTimeEstimate :: "string option"
  newType :: string
  connectFrom :: "string option"
  connectTo :: "string option"
  connectionLabel :: "string option"











subsection \<open>removeNode\<close>

text \<open>\<^verbatim>\<open>/\bend\b(?!\s*$)/g\<close>\<close>

definition endWordRe :: regex where
  "endWordRe = Cat [WordB, Lit ''end'', WordB, NotAhead (Cat [Star (Set [CSpace]), Eol])]"

definition removeNode :: "string \<Rightarrow> string \<Rightarrow> error + string" where
  "removeNode diagramCode ident =
     (let p = parseMermaidDiagram diagramCode in
      if \<not> truthy (objGet (nodes p) ident) then Inl (NodeNotFound ident)
      else if length (objectKeys (nodes p)) \<le> 2 then Inl MinimumNodes
      else
        let lines = split_nl diagramCode;
            nodeLine = (case objGet (nodes p) ident of NodeObj n \<Rightarrow> line n | _ \<Rightarrow> None);
            linesToRemove =
              (case nodeLine of Some i \<Rightarrow> [i] | None \<Rightarrow> []) @
              map connLine (filter (\<lambda>c. connFrom c = ident \<or> connTo c = ident) (connections p));
            updatedLines = map snd (filter (\<lambda>il. fst il \<notin> set linesToRemove)
                                      (zip [0 ..< length lines] lines));
            updatedDiagram = join_nl updatedLines;
            updatedDiagram = (if ident = ''end''
                              then replace_all plain endWordRe [Txt ''endNode''] updatedDiagram
                              else updatedDiagram)
        in Inr (validateAndFixMermaidSyntax (Some updatedDiagram)))"

section \<open>An invariant of the parser: recorded lines are lines of the source\<close>

definition lineOk :: "nat \<Rightarrow> node \<Rightarrow> bool" where
  "lineOk L n = (case line n of None \<Rightarrow> True | Some i \<Rightarrow> i < L)"

definition objOk :: "nat \<Rightarrow> nodesObject \<Rightarrow> bool" where
  "objOk L obj = (list_all (\<lambda>kn. lineOk L (snd kn)) (own obj) \<and>
                  (case proto obj of None \<Rightarrow> True | Some n \<Rightarrow> lineOk L n))"

definition diagOk :: "nat \<Rightarrow> parsedDiagram \<Rightarrow> bool" where
  "diagOk L p = (objOk L (nodes p) \<and> list_all (\<lambda>c. connLine c < L) (connections p))"






section \<open>The document editor (utils/documentEditor.js)\<close>

text \<open>
  The document tree that \<^verbatim>\<open>jsdom\<close> builds: elements with a lower-case tag name and their
  children, and text. A node is addressed by its path, the child indices from its top.
  The library itself is not part of the sources; what it computes from text and back is
  a parameter of the model: the parser of a document, the parser behind an assignment to
  \<^verbatim>\<open>innerHTML\<close>, the two serialisers, and the \<^verbatim>\<open>colSpan\<close> and \<^verbatim>\<open>rowSpan\<close> properties of a cell.
\<close>

datatype dom = Element string "dom list" | TextNode string

record htmlEngine =
  parseDocument :: "string \<Rightarrow> dom"
  parseFragment :: "string \<Rightarrow> dom list"
  serialize :: "dom \<Rightarrow> string"
  innerHTML :: "dom \<Rightarrow> string"
  colSpan :: "dom \<Rightarrow> nat"
  rowSpan :: "dom \<Rightarrow> nat"

fun textContent :: "dom \<Rightarrow> string" where
  "textContent (TextNode t) = t"
| "textContent (Element tg ks) = concat (map textContent ks)"

fun descendants :: "dom \<Rightarrow> (nat list \<times> dom) list"
  and descendantsFrom :: "nat \<Rightarrow> dom list \<Rightarrow> (nat list \<times> dom) list" where
  "descendants (TextNode t) = []"
| "descendants (Element tg ks) = descendantsFrom 0 ks"
| "descendantsFrom i [] = []"
| "descendantsFrom i (k # ks) =
     ([i], k) # map (\<lambda>pd. (i # fst pd, snd pd)) (descendants k) @ descendantsFrom (Suc i) ks"

definition hasTag :: "string list \<Rightarrow> dom \<Rightarrow> bool" where
  "hasTag tags d = (case d of Element tg ks \<Rightarrow> tg \<in> set tags | TextNode t \<Rightarrow> False)"

text \<open>\<^verbatim>\<open>querySelectorAll\<close> and \<^verbatim>\<open>querySelector\<close> for a list of tag names, in document order.\<close>

definition querySelectorAll :: "string list \<Rightarrow> dom \<Rightarrow> (nat list \<times> dom) list" where
  "querySelectorAll tags tree = filter (\<lambda>pd. hasTag tags (snd pd)) (descendants tree)"

definition querySelector :: "string list \<Rightarrow> dom \<Rightarrow> dom option" where
  "querySelector tags tree =
     (case querySelectorAll tags tree of [] \<Rightarrow> None | pd # _ \<Rightarrow> Some (snd pd))"

fun nodeAt :: "dom \<Rightarrow> nat list \<Rightarrow> dom option" where
  "nodeAt d [] = Some d"
| "nodeAt (TextNode t) (i # p) = None"
| "nodeAt (Element tg ks) (i # p) = (if i < length ks then nodeAt (ks ! i) p else None)"

text \<open>The element siblings before the node at a path, the nearest first.\<close>

definition previousElementSiblings :: "dom \<Rightarrow> nat list \<Rightarrow> dom list" where
  "previousElementSiblings tree p =
     (if p = [] then []
      else case nodeAt tree (butlast p) of
             Some (Element tg ks) \<Rightarrow>
               rev (filter (\<lambda>d. case d of Element t c \<Rightarrow> True | TextNode t \<Rightarrow> False) (take (last p) ks))
           | _ \<Rightarrow> [])"

text \<open>An assignment to \<^verbatim>\<open>innerHTML\<close> of the element at a path: its children are replaced.\<close>

fun setChildren :: "dom \<Rightarrow> nat list \<Rightarrow> dom list \<Rightarrow> dom" where
  "setChildren (TextNode t) p new = TextNode t"
| "setChildren (Element tg ks) [] new = Element tg new"
| "setChildren (Element tg ks) (i # p) new =
     (if i < length ks then Element tg (ks[i := setChildren (ks ! i) p new]) else Element tg ks)"

record cell =
  content :: string
  cellText :: string
  isHeader :: bool
  cellColSpan :: nat
  cellRowSpan :: nat

record row =
  cells :: "cell list"
  rowIndexInTable :: nat

record docSection =
  sectionTitle :: string
  tableIndex :: nat
  rows :: "row list"

datatype textBlock =
    Paragraph string string
  | ListBlock string "(string \<times> string) list" string

record parsedDocument =
  docTitle :: "string option"
  sections :: "docSection list"
  textualContent :: "textBlock list option"

definition headingTags :: "string list" where
  "headingTags = [''h1'', ''h2'', ''h3'', ''h4'', ''h5'', ''h6'']"

text \<open>The title of the section of a table: its caption, else the nearest heading among
  its preceding siblings, else its first cell when that spans several columns, else
  \<^verbatim>\<open>Section <k>\<close>.\<close>

definition titleOfTable :: "htmlEngine \<Rightarrow> dom \<Rightarrow> nat \<Rightarrow> nat list \<times> dom \<Rightarrow> string" where
  "titleOfTable eng document tblIndex tbl =
     (case querySelector [''caption''] (snd tbl) of
        Some caption \<Rightarrow> trim (textContent caption)
      | None \<Rightarrow>
          (case filter (hasTag headingTags) (previousElementSiblings document (fst tbl)) of
             previousElement # _ \<Rightarrow> trim (textContent previousElement)
           | [] \<Rightarrow>
               (case querySelector [''tr''] (snd tbl) of
                  Some firstRow \<Rightarrow>
                    (case querySelector [''th'', ''td''] firstRow of
                       Some firstCell \<Rightarrow>
                         if colSpan eng firstCell > 1 then trim (textContent firstCell)
                         else ''Section '' @ show_nat (tblIndex + 1)
                     | None \<Rightarrow> ''Section '' @ show_nat (tblIndex + 1))
                | None \<Rightarrow> ''Section '' @ show_nat (tblIndex + 1))))"

definition cellData :: "htmlEngine \<Rightarrow> dom \<Rightarrow> cell" where
  "cellData eng c =
     \<lparr>content = innerHTML eng c, cellText = trim (textContent c), isHeader = hasTag [''th''] c,
      cellColSpan = (if colSpan eng c = 0 then 1 else colSpan eng c),
      cellRowSpan = (if rowSpan eng c = 0 then 1 else rowSpan eng c)\<rparr>"

text \<open>The rows of a table that become rows of its section: a first row whose first cell
  spans several columns is left out, and so is a row without cells.\<close>

definition rowData :: "htmlEngine \<Rightarrow> nat \<times> dom \<Rightarrow> row list" where
  "rowData eng ir =
     (let skipTitle = (fst ir = 0 \<and>
            (case querySelector [''th'', ''td''] (snd ir) of
               Some firstCell \<Rightarrow> colSpan eng firstCell > 1 | None \<Rightarrow> False));
          cs = querySelectorAll [''th'', ''td''] (snd ir)
      in if skipTitle \<or> cs = [] then []
         else [\<lparr>cells = map (\<lambda>pd. cellData eng (snd pd)) cs, rowIndexInTable = fst ir\<rparr>])"

definition sectionOfTable :: "htmlEngine \<Rightarrow> dom \<Rightarrow> nat \<times> (nat list \<times> dom) \<Rightarrow> docSection list" where
  "sectionOfTable eng document it =
     (let tableRows = map snd (querySelectorAll [''tr''] (snd (snd it)));
          rs = concat (map (rowData eng) (zip [0 ..< length tableRows] tableRows))
      in if rs \<noteq> [] then
           [\<lparr>sectionTitle = titleOfTable eng document (fst it) (snd it), tableIndex = fst it, rows = rs\<rparr>]
         else [])"

definition paragraphBlock :: "htmlEngine \<Rightarrow> dom \<Rightarrow> textBlock list" where
  "paragraphBlock eng p =
     (if trim (textContent p) \<noteq> [] then [Paragraph (innerHTML eng p) (trim (textContent p))] else [])"

definition listBlock :: "htmlEngine \<Rightarrow> dom \<Rightarrow> textBlock list" where
  "listBlock eng l =
     (if trim (textContent l) \<noteq> [] then
        [ListBlock (case l of Element tg ks \<Rightarrow> tg | TextNode t \<Rightarrow> [])
           (map (\<lambda>pd. (innerHTML eng (snd pd), trim (textContent (snd pd)))) (querySelectorAll [''li''] l))
           (innerHTML eng l)]
      else [])"

text \<open>\<^verbatim>\<open>parseDocumentContent\<close>\<close>

definition parseDocumentContent :: "htmlEngine \<Rightarrow> string \<Rightarrow> parsedDocument" where
  "parseDocumentContent eng documentContent =
     (if documentContent = [] then \<lparr>docTitle = None, sections = [], textualContent = None\<rparr>
      else
        let document = parseDocument eng documentContent;
            tables = querySelectorAll [''table''] document;
            ttl = (case querySelector [''h1'', ''h2''] document of
                     Some h \<Rightarrow> if textContent h \<noteq> [] then textContent h else ''Process Document''
                   | None \<Rightarrow> ''Process Document'');
            secs = concat (map (sectionOfTable eng document) (zip [0 ..< length tables] tables));
            blocks = concat (map (\<lambda>pd. paragraphBlock eng (snd pd)) (querySelectorAll [''p''] document)) @
                     concat (map (\<lambda>pd. listBlock eng (snd pd)) (querySelectorAll [''ul'', ''ol''] document))
        in \<lparr>docTitle = Some ttl, sections = secs,
            textualContent = (if blocks \<noteq> [] then Some blocks else None)\<rparr>)"

subsection \<open>updateDocumentCell\<close>

record cellUpdate =
  sectionIndex :: int
  rowIndex :: int
  cellIndex :: int
  newContent :: string

datatype docError =
    InvalidSectionIndex int
  | InvalidRowIndex int
  | InvalidCellIndex int
  | TableNotFound nat
  | RowNotFound nat nat
  | CellNotFound int nat

definition updateDocumentCell :: "htmlEngine \<Rightarrow> string \<Rightarrow> cellUpdate \<Rightarrow> docError + string" where
  "updateDocumentCell eng documentContent updateInfo =
     (let parsedDocument = parseDocumentContent eng documentContent in
      if sectionIndex updateInfo < 0 \<or> sectionIndex updateInfo \<ge> int (length (sections parsedDocument))
      then Inl (InvalidSectionIndex (sectionIndex updateInfo))
      else
        let sec = sections parsedDocument ! nat (sectionIndex updateInfo) in
        if rowIndex updateInfo < 0 \<or> rowIndex updateInfo \<ge> int (length (rows sec))
        then Inl (InvalidRowIndex (rowIndex updateInfo))
        else
          let rw = rows sec ! nat (rowIndex updateInfo) in
          if cellIndex updateInfo < 0 \<or> cellIndex updateInfo \<ge> int (length (cells rw))
          then Inl (InvalidCellIndex (cellIndex updateInfo))
          else
            let document = parseDocument eng documentContent;
                tables = querySelectorAll [''table''] document
            in if \<not> tableIndex sec < length tables then Inl (TableNotFound (tableIndex sec))
               else
                 let targetTable = tables ! tableIndex sec;
                     tableRows = querySelectorAll [''tr''] (snd targetTable)
                 in if \<not> rowIndexInTable rw < length tableRows
                    then Inl (RowNotFound (rowIndexInTable rw) (tableIndex sec))
                    else
                      let targetRow = tableRows ! rowIndexInTable rw;
                          targetCells = querySelectorAll [''th'', ''td''] (snd targetRow)
                      in if \<not> nat (cellIndex updateInfo) < length targetCells
                         then Inl (CellNotFound (cellIndex updateInfo) (rowIndexInTable rw))
                         else
                           let targetCell = targetCells ! nat (cellIndex updateInfo)
                           in Inr (serialize eng
                                     (setChildren document
                                        (fst targetTable @ fst targetRow @ fst targetCell)
                                        (parseFragment eng (newContent updateInfo)))))"

text \<open>An engine for the examples: it reads every text as one fixed document of two tables
  and writes a document as its text content.\<close>

definition tableOf :: "string list list \<Rightarrow> dom" where
  "tableOf rs =
     Element ''table''
       (map (\<lambda>r. Element ''tr'' (map (\<lambda>c. Element ''td'' [TextNode c]) r)) rs)"

definition twoTables :: dom where
  "twoTables =
     Element ''body''
       [Element ''h3'' [TextNode ''Steps''], tableOf [[''1'', ''Review''], [''2'', ''Approve'']],
        Element ''h3'' [TextNode ''Roles''], tableOf [[''Clerk'', ''reviews'']]]"

definition exampleEngine :: htmlEngine where
  "exampleEngine =
     \<lparr>parseDocument = (\<lambda>s. twoTables), parseFragment = (\<lambda>s. [TextNode s]),
      serialize = textContent, innerHTML = textContent, colSpan = (\<lambda>d. 1), rowSpan = (\<lambda>d. 1)\<rparr>"

definition outOfRange :: "int \<Rightarrow> 'a list \<Rightarrow> bool" where
  "outOfRange i xs = (i < 0 \<or> i \<ge> int (length xs))"

definition cellAt :: "int \<Rightarrow> int \<Rightarrow> int \<Rightarrow> cellUpdate" where
  "cellAt s r c = \<lparr>sectionIndex = s, rowIndex = r, cellIndex = c, newContent = ''new''\<rparr>"

section \<open>Lines recorded by the parser\<close>

lemma list_all_map_set2:
  "list_all P m \<Longrightarrow> P (k, v) \<Longrightarrow> list_all P (map_set m k v)"
  by (induction m) auto

lemma objOk_objSet: "objOk L obj \<Longrightarrow> lineOk L n \<Longrightarrow> objOk L (objSet obj k n)"
  by (simp add: objOk_def objSet_def list_all_map_set2)

lemma fieldValue_no_node: "fieldValue m k \<noteq> Some (NodeObj n)"
  by (auto simp: fieldValue_def ofText_def ofFlag_def split: estimate.splits option.splits)

lemma fromObjectPrototype_no_node: "fromObjectPrototype k \<noteq> NodeObj n"
  by (simp add: fromObjectPrototype_def)

lemma objOk_objGet: "objOk L obj \<Longrightarrow> objGet obj k = NodeObj n \<Longrightarrow> lineOk L n"
  by (auto simp: objOk_def objGet_def list_all_iff fieldValue_no_node fromObjectPrototype_no_node
      split: if_splits option.splits dest!: map_of_SomeD)

lemma lineOk_newNode [simp]: "lineOk L (newNode i k l fl)"
  by (simp add: lineOk_def newNode_def)

lemma line_withTime [simp]: "line (withTime n) = line n"
  by (simp add: withTime_def split: option.splits)

lemma lineOk_withTime [simp]: "lineOk L (withTime n) = lineOk L n"
  by (simp add: lineOk_def)

lemma diagOk_declareNode: "diagOk L p \<Longrightarrow> i < L \<Longrightarrow> diagOk L (declareNode i n p)"
  by (simp add: diagOk_def declareNode_def Let_def objOk_objSet lineOk_def)

lemma diagOk_parseLine: "diagOk L p \<Longrightarrow> fst il < L \<Longrightarrow> diagOk L (parseLine p il)"
  by (auto simp: parseLine_def Let_def diagOk_declareNode split: option.splits)
     (auto simp: diagOk_def)

lemma diagOk_foldl_parseLine:
  "diagOk L p \<Longrightarrow> list_all (\<lambda>il. fst il < L) ils \<Longrightarrow> diagOk L (foldl parseLine p ils)"
  by (induction ils arbitrary: p) (auto simp: diagOk_parseLine)

lemma zip_upt_bound: "list_all (\<lambda>il. fst il < length ls) (zip [0 ..< length ls] ls)"
  by (auto simp: list_all_iff dest!: set_zip_leftD)

lemma objOk_resolveEndpoint: "objOk L obj \<Longrightarrow> objOk L (resolveEndpoint code obj k)"
  by (auto simp: resolveEndpoint_def objOk_objSet lineOk_def newNode_def split: option.splits)

lemma objOk_resolveConnection: "objOk L obj \<Longrightarrow> objOk L (resolveConnection code obj c)"
  by (simp add: resolveConnection_def objOk_resolveEndpoint)

lemma objOk_foldl_resolve: "objOk L obj \<Longrightarrow> objOk L (foldl (resolveConnection code) obj cs)"
  by (induction cs arbitrary: obj) (auto simp: objOk_resolveConnection)

lemma objOk_describe: "objOk L obj \<Longrightarrow> objOk L (describeFromComment obj l)"
proof -
  assume ok: "objOk L obj"
  have "\<And>k n. objGet obj k = NodeObj n \<Longrightarrow>
      objOk L (objSet obj k (n\<lparr>label := a, fullLabel := b, isImplicit := False, fromComment := True\<rparr>))" for a b
    using objOk_objGet [OF ok] by (intro objOk_objSet [OF ok]) (simp add: lineOk_def)
  then show ?thesis
    using ok by (auto simp: describeFromComment_def Let_def split: option.splits jsValue.splits)
qed

lemma objOk_foldl_describe: "objOk L obj \<Longrightarrow> objOk L (foldl describeFromComment obj ls)"
  by (induction ls arbitrary: obj) (auto simp: objOk_describe)

lemma objOk_endNode: "objOk (length ls) obj \<Longrightarrow> objOk (length ls) (endNodeInConnection ls obj c)"
  by (auto simp: endNodeInConnection_def objOk_objSet lineOk_def newNode_def split: option.splits)

lemma objOk_foldl_endNode:
  "objOk (length ls) obj \<Longrightarrow> objOk (length ls) (foldl (endNodeInConnection ls) obj cs)"
  by (induction cs arbitrary: obj) (auto simp: objOk_endNode)

lemma objOk_fullScan: "objOk L obj \<Longrightarrow> objOk L (fullScanStep obj m)"
  by (auto simp: fullScanStep_def objOk_objSet lineOk_def newNode_def)

lemma objOk_foldl_fullScan: "objOk L obj \<Longrightarrow> objOk L (foldl fullScanStep obj msl)"
  by (induction msl arbitrary: obj) (auto simp: objOk_fullScan)

lemma lineOk_infer: "lineOk L (snd (inferFromSubgraph kn)) = lineOk L (snd kn)"
  by (cases kn) (auto simp: inferFromSubgraph_def lineOk_def split: option.splits list.splits)

lemma objOk_infer: "objOk L obj \<Longrightarrow> objOk L (obj\<lparr>own := map inferFromSubgraph (own obj)\<rparr>)"
  by (simp add: objOk_def list_all_iff lineOk_infer)

lemma objOk_parse: "objOk (length (split_nl code)) (nodes (parseMermaidDiagram code))"
proof (cases "code = []")
  case True
  then show ?thesis
    by (simp add: parseMermaidDiagram_def emptyDiagram_def emptyNodes_def objOk_def)
next
  case False
  let ?ls = "split_nl code"
  let ?p1 = "emptyDiagram\<lparr>subgraphList := collectSubgraphs ?ls 0\<rparr>"
  let ?p2 = "foldl parseLine ?p1 (zip [0 ..< length ?ls] ?ls)"
  have "diagOk (length ?ls) ?p1"
    by (simp add: diagOk_def emptyDiagram_def emptyNodes_def objOk_def)
  then have "diagOk (length ?ls) ?p2"
    by (rule diagOk_foldl_parseLine) (rule zip_upt_bound)
  then have "objOk (length ?ls) (nodes ?p2)"
    by (simp add: diagOk_def)
  then show ?thesis
    using False
    by (simp add: parseMermaidDiagram_def Let_def objOk_infer objOk_foldl_fullScan
        objOk_foldl_endNode objOk_foldl_describe objOk_foldl_resolve)
qed

lemma explicit_line_in_source:
  "objGet (nodes (parseMermaidDiagram code)) k = NodeObj n \<Longrightarrow> line n = Some i \<Longrightarrow>
   i < length (split_nl code)"
  using objOk_objGet [OF objOk_parse, of code k n] by (simp add: lineOk_def)

section \<open>The validator\<close>

lemma split_nl_nonempty: "split_nl s \<noteq> []"
  by (induction s) (auto split: list.splits)

lemma split_nl_append_nl: "split_nl (a @ CHR 0x0A # b) = split_nl a @ split_nl b"
proof (induction a)
  case Nil
  then show ?case by simp
next
  case (Cons c a)
  then show ?case
    using split_nl_nonempty [of a] by (cases "split_nl a") auto
qed

lemma split_end: "split_nl ''end'' = [''end'']"
  by simp

lemma split_closers: "split_nl (body @ closers n) = split_nl body @ replicate n ''end''"
proof (induction n arbitrary: body)
  case 0
  then show ?case by (simp add: closers_def)
next
  case (Suc n)
  have "body @ closers (Suc n) = (body @ CHR 0x0A # ''end'') @ closers n"
    by (simp add: closers_def)
  then have "split_nl (body @ closers (Suc n)) = split_nl (body @ CHR 0x0A # ''end'') @ replicate n ''end''"
    using Suc.IH [of "body @ CHR 0x0A # ''end''"] by simp
  also have "\<dots> = split_nl body @ [''end''] @ replicate n ''end''"
    by (simp only: split_nl_append_nl split_end append_assoc)
  finally show ?case by (simp add: replicate_app_Cons_same)
qed

lemma end_is_closer: "isCloser ''end''" "\<not> isOpener ''end''"
  by (simp_all add: isCloser_def isOpener_def trim_def is_space_def startsWith_def)

lemma scan_append:
  "scanGroups n (xs @ ys) = (case scanGroups n xs of None \<Rightarrow> None | Some m \<Rightarrow> scanGroups m ys)"
  by (induction xs arbitrary: n) (auto split: nat.splits)

lemma scan_closers: "scanGroups n (replicate n ''end'') = Some 0"
  by (induction n) (auto simp: end_is_closer)

lemma scan_counts:
  "scanGroups n xs = Some m \<Longrightarrow>
   n + length (filter isOpener xs) = m + length (filter isCloser xs)"
proof (induction xs arbitrary: n)
  case Nil
  then show ?case by simp
next
  case (Cons l xs)
  show ?case
  proof (cases "isOpener l")
    case True
    then show ?thesis using Cons.IH [of "Suc n"] Cons.prems
      by (auto simp: isOpener_def isCloser_def startsWith_def)
  next
    case False
    then show ?thesis using Cons.IH [of n] Cons.IH [of "n - 1"] Cons.prems
      by (auto split: nat.splits if_splits)
  qed
qed

lemma closers_balance:
  assumes "scanGroups 0 (split_nl body) = Some d"
  shows "balanced (body @ closers d)"
proof -
  have s: "scanGroups 0 (split_nl (body @ closers d)) = Some 0"
    by (simp add: split_closers scan_append assms scan_closers)
  from scan_counts [OF s] show ?thesis
    by (simp add: balanced_def s countOpeners_def countClosers_def)
qed

lemma scan_replicate_end:
  "scanGroups m (replicate d ''end'') = (if d \<le> m then Some (m - d) else None)"
proof (induction d arbitrary: m)
  case 0
  then show ?case by simp
next
  case (Suc d)
  then show ?case by (cases m) (auto simp: end_is_closer)
qed

lemma balanced_closers_iff:
  "balanced (body @ closers d) \<longleftrightarrow> scanGroups 0 (split_nl body) = Some d"
proof
  assume "scanGroups 0 (split_nl body) = Some d"
  then show "balanced (body @ closers d)" by (rule closers_balance)
next
  assume b: "balanced (body @ closers d)"
  then have "scanGroups 0 (split_nl body @ replicate d ''end'') = Some 0"
    by (simp add: balanced_def split_closers)
  then show "scanGroups 0 (split_nl body) = Some d"
    by (auto simp: scan_append scan_replicate_end split: option.splits if_splits)
qed

text \<open>
  C1. Validating twice is not validating once. A tag at the end of the text is taken out
  after the text was trimmed, so the first result ends in a blank that the second run
  trims away; and the placeholder returned for an empty source has an unquoted label with
  blanks, which the validator's own quoting rule rewrites on the next run.
\<close>

theorem validate_twice_differs:
  "validateAndFixMermaidSyntax (Some ''graph TD\<newline>A[\"Start\"] --> B[\"End\"]<br>'') =
     ''graph TD\<newline>A[\"Start\"] --> B[\"End\"] '' \<and>
   validateAndFixMermaidSyntax (Some ''graph TD\<newline>A[\"Start\"] --> B[\"End\"] '') =
     ''graph TD\<newline>A[\"Start\"] --> B[\"End\"]'' \<and>
   validateAndFixMermaidSyntax
       (Some (validateAndFixMermaidSyntax (Some ''graph TD\<newline>A[\"Start\"] --> B[\"End\"]<br>''))) \<noteq>
     validateAndFixMermaidSyntax (Some ''graph TD\<newline>A[\"Start\"] --> B[\"End\"]<br>'') \<and>
   validateAndFixMermaidSyntax (Some []) = ''graph TD\<newline>A[No diagram available]'' \<and>
   validateAndFixMermaidSyntax (Some ''graph TD\<newline>A[No diagram available]'') =
     ''graph TD\<newline>A[\"No diagram available\"]'' \<and>
   validateAndFixMermaidSyntax (Some (validateAndFixMermaidSyntax (Some []))) \<noteq>
     validateAndFixMermaidSyntax (Some [])"
proof -
  have a: "validateAndFixMermaidSyntax (Some ''graph TD\<newline>A[\"Start\"] --> B[\"End\"]<br>'') =
     ''graph TD\<newline>A[\"Start\"] --> B[\"End\"] ''"
    by code_simp
  have b: "validateAndFixMermaidSyntax (Some ''graph TD\<newline>A[\"Start\"] --> B[\"End\"] '') =
     ''graph TD\<newline>A[\"Start\"] --> B[\"End\"]''"
    by code_simp
  have c: "validateAndFixMermaidSyntax (Some []) = ''graph TD\<newline>A[No diagram available]''"
    by code_simp
  have d: "validateAndFixMermaidSyntax (Some ''graph TD\<newline>A[No diagram available]'') =
     ''graph TD\<newline>A[\"No diagram available\"]''"
    by code_simp
  show ?thesis
    by (simp only: a b c d) simp
qed











section \<open>The mutators\<close>

text \<open>
  C3. The first half holds: for the source \<^verbatim>\<open>A-->B\<close>, setting the time estimate of \<^verbatim>\<open>B\<close> to
  "10 min" returns a text whose parse has \<^verbatim>\<open>B\<close> on a line of its own, not implicit, with
  label "B" and time estimate "10 min". The second half fails: \<^verbatim>\<open>constructor\<close> is neither a
  node nor an endpoint of the model of \<^verbatim>\<open>A-->B\<close>, yet the call does not fail; the lookup
  \<^verbatim>\<open>nodes[nodeId]\<close> finds the inherited property of \<^verbatim>\<open>Object.prototype\<close>, and the call returns
  the placeholder diagram.
\<close>

theorem updateNodeTimeEstimate_materialise_and_missing_id:
  "updateNodeTimeEstimate compileRegExp ''A-->B'' ''B'' ''10 min'' =
     Inr ''graph TD\<newline>A-->B\<newline>B[\"B (10 min)\"]'' \<and>
   objGet (nodes (parseMermaidDiagram ''graph TD\<newline>A-->B\<newline>B[\"B (10 min)\"]'')) ''B'' =
     NodeObj ((newNode ''B'' Process ''B'' ''B (10 min)'')
       \<lparr>timeEstimate := Estimate ''10 min'', line := Some 2, subgraphs := Some []\<rparr>) \<and>
   objectKeys (nodes (parseMermaidDiagram ''A-->B'')) = [''A'', ''B''] \<and>
   map connFrom (connections (parseMermaidDiagram ''A-->B'')) = [''A''] \<and>
   map connTo (connections (parseMermaidDiagram ''A-->B'')) = [''B''] \<and>
   updateNodeTimeEstimate compileRegExp ''A-->B'' ''constructor'' ''10 min'' =
     Inr ''graph TD\<newline>A[No diagram available]'' \<and>
   updateNodeTimeEstimate compileRegExp ''A-->B'' ''C'' ''10 min'' =
     Inl (NodeNotFoundInDiagram ''C'')"
  by code_simp

text \<open>
  C4. When the parsed model of a source has two nodes or fewer, \<^verbatim>\<open>removeNode\<close> fails for
  every node id: with "not found" or with "diagram must have at least 2 nodes". It returns
  no diagram at all, and the source, an argument of a pure function, is as it was.
\<close>

theorem removeNode_floor:
  "length (objectKeys (nodes (parseMermaidDiagram diagramCode))) \<le> 2 \<Longrightarrow>
   removeNode diagramCode ident = Inl (NodeNotFound ident) \<or>
   removeNode diagramCode ident = Inl MinimumNodes"
  by (simp add: removeNode_def Let_def)

theorem removeNode_floor_witness:
  "length (objectKeys (nodes (parseMermaidDiagram ''A-->B''))) \<le> 2 \<and>
   removeNode ''A-->B'' ''A'' = Inl MinimumNodes \<and>
   removeNode ''A-->B'' ''Z'' = Inl (NodeNotFound ''Z'')"
proof -
  have h: "length (objectKeys (nodes (parseMermaidDiagram ''A-->B''))) \<le> 2"
    by code_simp
  have a: "removeNode ''A-->B'' ''A'' \<noteq> Inl (NodeNotFound ''A'')"
    by code_simp
  have z: "removeNode ''A-->B'' ''Z'' \<noteq> Inl MinimumNodes"
    by code_simp
  show ?thesis
    using h a z removeNode_floor [OF h, of "''A''"] removeNode_floor [OF h, of "''Z''"] by blast
qed

text \<open>
  C5, as stated, fails: the edited text goes through the validator, which rewrites other
  lines. Here \<^verbatim>\<open>A\<close> is declared on line 0; after the label update the line \<^verbatim>\<open>B -> C\<close> of the
  source has become \<^verbatim>\<open>B --> C\<close> and a directive line stands in front.
\<close>

theorem updateNodeLabel_other_lines_counterexample:
  "(case objGet (nodes (parseMermaidDiagram ''A[\"x (5 min)\"]\<newline>B -> C'')) ''A'' of
      NodeObj n \<Rightarrow> line n = Some 0 | _ \<Rightarrow> False) \<and>
   split_nl ''A[\"x (5 min)\"]\<newline>B -> C'' = [''A[\"x (5 min)\"]'', ''B -> C''] \<and>
   updateNodeLabel ''A[\"x (5 min)\"]\<newline>B -> C'' ''A'' ''y'' =
     Inr ''graph TD\<newline>A[\"y (5 min)\"]\<newline>B --> C'' \<and>
   split_nl ''graph TD\<newline>A[\"y (5 min)\"]\<newline>B --> C'' =
     [''graph TD'', ''A[\"y (5 min)\"]'', ''B --> C'']"
  by code_simp

lemma find_sub_split: "find_sub p s = Some ba \<Longrightarrow> s = fst ba @ p @ snd ba"
proof (induction s arbitrary: ba)
  case Nil
  then show ?case by (auto split: if_splits)
next
  case (Cons c cs)
  show ?case
  proof (cases "startsWith (c # cs) p")
    case True
    then have "ba = ([], drop (length p) (c # cs))" using Cons.prems by simp
    moreover have "take (length p) (c # cs) = p" using True by (simp add: startsWith_def)
    ultimately show ?thesis
      by (metis append_Nil append_take_drop_id fst_conv snd_conv)
  next
    case False
    then obtain ba' where f: "find_sub p cs = Some ba'" and e: "ba = (c # fst ba', snd ba')"
      using Cons.prems by auto
    from Cons.IH [OF f] e show ?thesis by simp
  qed
qed

lemma substitute_plain: "CHR ''$'' \<notin> set r \<Longrightarrow> substitute m mt r = r"
  by (induction m mt r rule: substitute.induct) auto

lemma replaceStr_found:
  "find_sub pat s = Some ba \<Longrightarrow> CHR ''$'' \<notin> set repl \<Longrightarrow>
   s = fst ba @ pat @ snd ba \<and> replaceStr s pat repl = fst ba @ repl @ snd ba"
  using find_sub_split [of pat s ba] by (simp add: replaceStr_def substitute_plain)

lemma replaceStr_missing: "find_sub pat s = None \<Longrightarrow> replaceStr s pat repl = s"
  by (simp add: replaceStr_def)

lemma relabelled_found:
  assumes "nodeType n = Process \<or> timeSuffix n = []"
    and "find_sub (declarationText (nodeType n) ident (fullLabel n)) l = Some ba"
    and "CHR ''$'' \<notin> set (declarationText (nodeType n) ident (lbl @ timeSuffix n))"
  shows "l = fst ba @ declarationText (nodeType n) ident (fullLabel n) @ snd ba \<and>
         relabelled n ident lbl l =
           fst ba @ declarationText (nodeType n) ident (lbl @ timeSuffix n) @ snd ba"
proof -
  have e: "relabelled n ident lbl l =
      replaceStr l (declarationText (nodeType n) ident (fullLabel n))
        (declarationText (nodeType n) ident (lbl @ timeSuffix n))"
    using assms(1) by (cases "nodeType n") (auto simp: relabelled_def)
  show ?thesis
    unfolding e using assms(2,3) by (rule replaceStr_found)
qed

text \<open>
  C5, amended. Take a node of the parsed model that has a line of its own, whose
  declaration text (\<^verbatim>\<open>id["fullLabel"]\<close>, \<^verbatim>\<open>id{"fullLabel"}\<close> or \<^verbatim>\<open>id(["fullLabel"])\<close>) stands on that
  line of the source, and that is a process node or has no time estimate; the new
  declaration has no \<^verbatim>\<open>$\<close>, which a replacement string treats specially. Then
  \<^verbatim>\<open>updateNodeLabel\<close> returns what the validator makes of the source lines after one edit:
  on the node's line the first occurrence of the declaration text is exchanged for the
  declaration with the new label followed by the existing time-estimate suffix, the text
  before and after it staying in place, and every other line is the line of the source.
\<close>

theorem updateNodeLabel_edits_one_line:
  assumes "objGet (nodes (parseMermaidDiagram diagramCode)) ident = NodeObj n"
    and "line n = Some i"
    and "nodeType n = Process \<or> timeSuffix n = []"
    and "find_sub (declarationText (nodeType n) ident (fullLabel n)) (split_nl diagramCode ! i) =
           Some (before, after)"
    and "CHR ''$'' \<notin> set (declarationText (nodeType n) ident (lbl @ timeSuffix n))"
  shows "\<exists>edited.
           updateNodeLabel diagramCode ident lbl =
             Inr (validateAndFixMermaidSyntax (Some (join_nl edited))) \<and>
           length edited = length (split_nl diagramCode) \<and>
           i < length edited \<and>
           split_nl diagramCode ! i =
             before @ declarationText (nodeType n) ident (fullLabel n) @ after \<and>
           edited ! i =
             before @ declarationText (nodeType n) ident (lbl @ timeSuffix n) @ after \<and>
           (\<forall>j < length edited. j \<noteq> i \<longrightarrow> edited ! j = split_nl diagramCode ! j)"
proof -
  have b: "i < length (split_nl diagramCode)"
    using assms(1,2) by (rule explicit_line_in_source)
  let ?edited = "(split_nl diagramCode)[i := relabelled n ident lbl (split_nl diagramCode ! i)]"
  have r: "updateNodeLabel diagramCode ident lbl =
      Inr (validateAndFixMermaidSyntax (Some (join_nl ?edited)))"
    using assms(1,2) b by (simp add: updateNodeLabel_def Let_def)
  have f: "split_nl diagramCode ! i =
             before @ declarationText (nodeType n) ident (fullLabel n) @ after \<and>
           relabelled n ident lbl (split_nl diagramCode ! i) =
             before @ declarationText (nodeType n) ident (lbl @ timeSuffix n) @ after"
    using relabelled_found [OF assms(3,4,5)] unfolding fst_conv snd_conv .
  have e: "?edited ! i = before @ declarationText (nodeType n) ident (lbl @ timeSuffix n) @ after"
    using b conjunct2 [OF f] by (simp only: nth_list_update_eq)
  have o: "\<forall>j < length ?edited. j \<noteq> i \<longrightarrow> ?edited ! j = split_nl diagramCode ! j"
    by simp
  have l: "length ?edited = length (split_nl diagramCode)"
    by simp
  show ?thesis
    using r l b f e o by (intro exI [of _ ?edited]) (simp only: simp_thms)
qed

theorem updateNodeLabel_edits_one_line_witness:
  "objGet (nodes (parseMermaidDiagram ''A[\"x (5 min)\"]\<newline>B -> C'')) ''A'' =
     NodeObj ((newNode ''A'' Process ''x'' ''x (5 min)'')
       \<lparr>timeEstimate := Estimate ''5 min'', line := Some 0, subgraphs := Some []\<rparr>) \<and>
   split_nl ''A[\"x (5 min)\"]\<newline>B -> C'' = [''A[\"x (5 min)\"]'', ''B -> C''] \<and>
   declarationText Process ''A'' ''x (5 min)'' = ''A[\"x (5 min)\"]'' \<and>
   find_sub ''A[\"x (5 min)\"]'' ''A[\"x (5 min)\"]'' = Some ([], []) \<and>
   declarationText Process ''A'' ''y (5 min)'' = ''A[\"y (5 min)\"]'' \<and>
   (\<exists>edited.
      updateNodeLabel ''A[\"x (5 min)\"]\<newline>B -> C'' ''A'' ''y'' =
        Inr (validateAndFixMermaidSyntax (Some (join_nl edited))) \<and>
      edited = [''A[\"y (5 min)\"]'', ''B -> C''])"
proof -
  let ?src = "''A[\"x (5 min)\"]\<newline>B -> C''"
  let ?n = "(newNode ''A'' Process ''x'' ''x (5 min)'')
       \<lparr>timeEstimate := Estimate ''5 min'', line := Some 0, subgraphs := Some []\<rparr>"
  have h1: "objGet (nodes (parseMermaidDiagram ?src)) ''A'' = NodeObj ?n"
    by code_simp
  have h2: "line ?n = Some 0"
    by (simp add: newNode_def)
  have h3: "nodeType ?n = Process \<or> timeSuffix ?n = []"
    by (simp add: newNode_def)
  have h4: "find_sub (declarationText (nodeType ?n) ''A'' (fullLabel ?n)) (split_nl ?src ! 0) =
      Some ([], [])"
    by code_simp
  have h5: "CHR ''$'' \<notin> set (declarationText (nodeType ?n) ''A'' (''y'' @ timeSuffix ?n))"
    by code_simp
  have o': "declarationText Process ''A'' ''x (5 min)'' = ''A[\"x (5 min)\"]''"
    by code_simp
  have w: "declarationText (nodeType ?n) ''A'' (''y'' @ timeSuffix ?n) = ''A[\"y (5 min)\"]''"
    by code_simp
  have w': "declarationText Process ''A'' ''y (5 min)'' = ''A[\"y (5 min)\"]''"
    by code_simp
  have s: "split_nl ?src = [''A[\"x (5 min)\"]'', ''B -> C'']"
    by code_simp
  have f: "find_sub ''A[\"x (5 min)\"]'' ''A[\"x (5 min)\"]'' = Some ([], [])"
    by code_simp
  from updateNodeLabel_edits_one_line [OF h1 h2 h3 h4 h5]
  obtain edited where e: "updateNodeLabel ?src ''A'' ''y'' =
        Inr (validateAndFixMermaidSyntax (Some (join_nl edited)))"
      "length edited = length (split_nl ?src)"
      "edited ! 0 = [] @ declarationText (nodeType ?n) ''A'' (''y'' @ timeSuffix ?n) @ []"
      "\<forall>j < length edited. j \<noteq> 0 \<longrightarrow> edited ! j = split_nl ?src ! j"
    by blast
  have l: "length edited = 2" using e(2) s by simp
  have e1: "edited ! 1 = ''B -> C''" using e(4) l s by simp
  have e0: "edited ! 0 = ''A[\"y (5 min)\"]''"
    using e(3) by (simp only: w append_Nil append_Nil2)
  have "edited = [edited ! 0, edited ! 1]"
    using l by (cases edited; cases "tl edited") auto
  then have "edited = [''A[\"y (5 min)\"]'', ''B -> C'']"
    using e0 e1 by simp
  then show ?thesis using h1 s o' f w' e(1) by blast
qed








section \<open>Time parsing and formatting\<close>

lemma parseTimeToMinutes_refines:
  "parseTimeToMinutes s = parseByPrecedence s"
  by (simp add: parseTimeToMinutes_def parseByPrecedence_def unitPatterns_def rangeAverage_def
      minutesPerWeek_def minutesPerDay_def Let_def split: option.splits)

lemma parse_canonical: "parseTimeToMinutes ''2 hours 30 minutes'' = Some 150"
  by code_simp

lemma format_canonical: "formatMinutesToTime (Some 150) = ''2 hours 30 minutes''"
  by code_simp

text \<open>
  C7. The canonical pair: \<^verbatim>\<open>parseTimeToMinutes("2 hours 30 minutes")\<close> is 150 and
  \<^verbatim>\<open>formatMinutesToTime(150)\<close> is "2 hours 30 minutes". On every string the parser decides by
  the fixed precedence week range, week count, day range, day count, then hours and
  minutes, the first matching pattern winning, with 8 hours a day and 5 days a week.
\<close>

theorem parseTimeToMinutes_precedence:
  "parseTimeToMinutes ''2 hours 30 minutes'' = Some 150 \<and>
   formatMinutesToTime (Some 150) = ''2 hours 30 minutes'' \<and>
   (\<forall>s. parseTimeToMinutes s = parseByPrecedence s) \<and>
   minutesPerDay = 8 * 60 \<and> minutesPerWeek = 5 * 8 * 60"
  using parseTimeToMinutes_refines parse_canonical format_canonical
  by (simp add: minutesPerDay_def minutesPerWeek_def)

theorem parseTimeToMinutes_precedence_witness:
  "parseTimeToMinutes ''2-4 days 1 week'' = parseByPrecedence ''2-4 days 1 week'' \<and>
   parseByPrecedence ''2-4 days 1 week'' = Some 2400 \<and>
   parseTimeToMinutes ''1-3 weeks'' = Some 4800 \<and>
   parseTimeToMinutes ''2-4 days'' = Some 1440 \<and>
   parseTimeToMinutes ''3 days 2 hours'' = Some 1440"
proof -
  have a: "parseTimeToMinutes ''2-4 days 1 week'' = parseByPrecedence ''2-4 days 1 week''"
    using parseTimeToMinutes_precedence by blast
  have b: "parseByPrecedence ''2-4 days 1 week'' = Some 2400"
    by code_simp
  have c: "parseTimeToMinutes ''1-3 weeks'' = Some 4800"
    by code_simp
  have d: "parseTimeToMinutes ''2-4 days'' = Some 1440"
    by code_simp
  have e: "parseTimeToMinutes ''3 days 2 hours'' = Some 1440"
    by code_simp
  show ?thesis using a b c d e by blast
qed

text \<open>
  C10, as stated, fails: a week or day pattern returns its product at once, so a zero count
  gives 0, not \<^verbatim>\<open>null\<close>.
\<close>

theorem parseTimeToMinutes_zero_days_counterexample:
  "parseTimeToMinutes ''0 days'' = Some 0 \<and> parseTimeToMinutes ''0 weeks'' = Some 0"
  by code_simp

lemma hoursAndMinutes_not_zero: "hoursAndMinutes s \<noteq> Some 0"
  by (simp add: hoursAndMinutes_def Let_def)

lemma parseTimeToMinutes_no_unit:
  "\<not> unitPatternMatches s \<Longrightarrow> parseTimeToMinutes s = None \<or> parseTimeToMinutes s = hoursAndMinutes s"
  by (simp add: unitPatternMatches_def test_re_def parseTimeToMinutes_def)

text \<open>
  C10, amended. Only the hours-and-minutes path turns a zero total into \<^verbatim>\<open>null\<close>: when no
  week or day pattern matches the string, the result is never 0, and "0 minutes" and
  "0 hours" give \<^verbatim>\<open>null\<close>. (A week or day pattern with a zero count gives 0.)
\<close>

theorem parseTimeToMinutes_zero_is_null_without_units:
  "\<not> unitPatternMatches s \<Longrightarrow> parseTimeToMinutes s \<noteq> Some 0"
  using parseTimeToMinutes_no_unit [of s] hoursAndMinutes_not_zero [of s] by auto

theorem parseTimeToMinutes_zero_is_null_without_units_witness:
  "\<not> unitPatternMatches ''0 minutes'' \<and> parseTimeToMinutes ''0 minutes'' \<noteq> Some 0 \<and>
   parseTimeToMinutes ''0 minutes'' = None \<and> parseTimeToMinutes ''0 hours'' = None"
proof -
  have h: "\<not> unitPatternMatches ''0 minutes''"
    by code_simp
  have c: "parseTimeToMinutes ''0 minutes'' \<noteq> Some 0"
    by (rule parseTimeToMinutes_zero_is_null_without_units [OF h])
  have n: "parseTimeToMinutes ''0 minutes'' = None" "parseTimeToMinutes ''0 hours'' = None"
    by code_simp+
  show ?thesis using h c n by blast
qed

section \<open>Merging metrics\<close>

lemma map_of_map_set: "map_of (map_set m k v) = (map_of m)(k \<mapsto> v)"
  by (induction m) (auto simp: fun_eq_iff)

lemma keys_map_set: "fst ` set (map_set m k v) = insert k (fst ` set m)"
  by (induction m) force+

lemma distinct_map_set: "distinct (map fst m) \<Longrightarrow> distinct (map fst (map_set m k v))"
  by (induction m) (auto simp: keys_map_set)

lemma list_all_map_set:
  "list_all P m \<Longrightarrow> P (k, v) \<Longrightarrow> list_all P (map_set m k v)"
  by (induction m) auto

lemma keyed_map_set: "keyed m \<Longrightarrow> step v = k \<Longrightarrow> keyed (map_set m k v)"
  unfolding keyed_def by (simp add: distinct_map_set list_all_map_set)

lemma map_of_addDocumentStep:
  "map_of (addDocumentStep m e) = (map_of m)(step e \<mapsto> e\<lparr>stepSource := Some ''document''\<rparr>)"
  by (simp add: addDocumentStep_def map_of_map_set)

lemma map_has_iff: "map_has m k \<longleftrightarrow> map_of m k \<noteq> None"
  by (induction m) (auto simp: map_has_def)

lemma map_of_addWorkflowStep:
  "map_of (addWorkflowStep m e) =
     (case map_of m (step e) of None \<Rightarrow> (map_of m)(step e \<mapsto> e\<lparr>stepSource := Some ''workflow''\<rparr>)
      | Some v \<Rightarrow> map_of m)"
  by (auto simp add: addWorkflowStep_def map_of_map_set map_has_iff split: option.splits)

lemma keyed_addDocumentStep: "keyed m \<Longrightarrow> keyed (addDocumentStep m e)"
  by (simp add: addDocumentStep_def keyed_map_set)

lemma keyed_addWorkflowStep: "keyed m \<Longrightarrow> keyed (addWorkflowStep m e)"
  by (simp add: addWorkflowStep_def keyed_map_set)

lemma keyed_foldl_doc: "keyed m \<Longrightarrow> keyed (foldl addDocumentStep m ds)"
  by (induction ds arbitrary: m) (auto simp: keyed_addDocumentStep)

lemma keyed_foldl_wf: "keyed m \<Longrightarrow> keyed (foldl addWorkflowStep m ws)"
  by (induction ws arbitrary: m) (auto simp: keyed_addWorkflowStep)

lemma doc_fold:
  "map_of (foldl addDocumentStep m ds) k =
     (case entriesUnder k ds of [] \<Rightarrow> map_of m k
      | f # fs \<Rightarrow> Some ((last (f # fs))\<lparr>stepSource := Some ''document''\<rparr>))"
proof (induction ds arbitrary: m)
  case Nil
  then show ?case by (simp add: entriesUnder_def)
next
  case (Cons e ds)
  show ?case
    by (simp add: Cons.IH map_of_addDocumentStep entriesUnder_def split: list.splits)
qed

lemma wf_fold:
  "map_of (foldl addWorkflowStep m ws) k =
     (case map_of m k of Some v \<Rightarrow> Some v
      | None \<Rightarrow> (case entriesUnder k ws of [] \<Rightarrow> None
                  | f # fs \<Rightarrow> Some (f\<lparr>stepSource := Some ''workflow''\<rparr>)))"
proof (induction ws arbitrary: m)
  case Nil
  then show ?case by (simp add: entriesUnder_def split: option.splits)
next
  case (Cons e ws)
  show ?case
    by (auto simp add: Cons.IH map_of_addWorkflowStep entriesUnder_def
        split: list.splits option.splits)
qed

lemma keyed_filter:
  "keyed m \<Longrightarrow>
   filter (\<lambda>e. step e = k) (map snd m) = (case map_of m k of None \<Rightarrow> [] | Some v \<Rightarrow> [v])"
  unfolding keyed_def
proof (induction m)
  case Nil
  then show ?case by simp
next
  case (Cons p m)
  obtain k' v' where p: "p = (k', v')" by (cases p)
  have tl: "filter (\<lambda>e. step e = k) (map snd m) = (case map_of m k of None \<Rightarrow> [] | Some v \<Rightarrow> [v])"
    using Cons by simp
  show ?case
  proof (cases "k' = k")
    case True
    then have "map_of m k = None" using Cons.prems p
      by (simp add: map_of_eq_None_iff image_iff)
    then show ?thesis using True p tl Cons.prems by simp
  next
    case False
    then show ?thesis using p tl Cons.prems by auto
  qed
qed

lemma entriesUnder_sorted:
  "keyed m \<Longrightarrow>
   entriesUnder k (sort_key f (map_values m)) = (case map_of m k of None \<Rightarrow> [] | Some v \<Rightarrow> [v])"
  by (simp add: entriesUnder_def map_values_def filter_sort keyed_filter split: option.splits)

lemma foldl_sum: "foldl (\<lambda>s e. s + g e) a xs = a + sum_list (map g xs)"
  by (induction xs arbitrary: a) (auto simp: algebra_simps)

lemma stepMap_of_merge:
  "mergedStepList (mergeMetrics now w d) =
     sort_key stepOrder (map_values (foldl addWorkflowStep (foldl addDocumentStep [] (stepsOf d)) (stepsOf w)))"
  by (simp add: mergeMetrics_def mergedStepList_def stepsOf_def createDefaultMetrics_def Let_def
      split: option.splits)

lemma merged_entries:
  "entriesUnder k (mergedStepList (mergeMetrics now w d)) =
     (case entriesUnder k (stepsOf d) of
        f # fs \<Rightarrow> [(last (f # fs))\<lparr>stepSource := Some ''document''\<rparr>]
      | [] \<Rightarrow> (case entriesUnder k (stepsOf w) of
                 [] \<Rightarrow> []
               | f # fs \<Rightarrow> [f\<lparr>stepSource := Some ''workflow''\<rparr>]))"
proof -
  have k: "keyed (foldl addWorkflowStep (foldl addDocumentStep [] (stepsOf d)) (stepsOf w))"
    by (intro keyed_foldl_wf keyed_foldl_doc) (simp add: keyed_def)
  show ?thesis
    by (simp add: stepMap_of_merge entriesUnder_sorted [OF k] wf_fold doc_fold split: list.splits)
qed

lemma merged_total:
  "totalTimeMinutes (mergeMetrics now w d) =
     sum_list (map minutesOrZero (mergedStepList (mergeMetrics now w d)))"
  by (simp add: mergeMetrics_def mergedStepList_def Let_def foldl_sum)


lemma merge_scenario:
  "mergedStepList (mergeMetrics now
       (Some (metricsOf [stepEntry ''1'' 99, stepEntry ''2'' 20]))
       (Some (metricsOf [stepEntry ''1'' 30]))) =
     [(stepEntry ''1'' 30)\<lparr>stepSource := Some ''document''\<rparr>,
      (stepEntry ''2'' 20)\<lparr>stepSource := Some ''workflow''\<rparr>] \<and>
   totalTimeMinutes (mergeMetrics now
       (Some (metricsOf [stepEntry ''1'' 99, stepEntry ''2'' 20]))
       (Some (metricsOf [stepEntry ''1'' 30]))) = 50"
  by code_simp

text \<open>
  C8, as stated, fails: not every step entry of the document is kept. The step map is
  written with \<^verbatim>\<open>Map.set\<close>, which overwrites, so of two document entries under the same
  step key only the last one reaches the merged list. Here the document has step "1"
  twice, with 30 and with 40 minutes: the merged list has one entry under "1", the one
  with 40 minutes, and the entry with 30 minutes is gone.
\<close>

theorem mergeMetrics_repeated_key_counterexample:
  "entriesUnder ''1'' (stepsOf (Some (metricsOf [stepEntry ''1'' 30, stepEntry ''1'' 40]))) =
     [stepEntry ''1'' 30, stepEntry ''1'' 40] \<and>
   mergedStepList (mergeMetrics 0
       (Some (metricsOf [stepEntry ''1'' 99, stepEntry ''2'' 20]))
       (Some (metricsOf [stepEntry ''1'' 30, stepEntry ''1'' 40]))) =
     [(stepEntry ''1'' 40)\<lparr>stepSource := Some ''document''\<rparr>,
      (stepEntry ''2'' 20)\<lparr>stepSource := Some ''workflow''\<rparr>] \<and>
   map timeMinutes (mergedStepList (mergeMetrics 0
       (Some (metricsOf [stepEntry ''1'' 99, stepEntry ''2'' 20]))
       (Some (metricsOf [stepEntry ''1'' 30, stepEntry ''1'' 40])))) = [Some 40, Some 20] \<and>
   totalTimeMinutes (mergeMetrics 0
       (Some (metricsOf [stepEntry ''1'' 99, stepEntry ''2'' 20]))
       (Some (metricsOf [stepEntry ''1'' 30, stepEntry ''1'' 40]))) = 60"
  by code_simp

text \<open>
  C8, amended. For every pair of metrics arguments (each possibly missing): under every
  step key of the document the merged list holds exactly one entry, the document's (its
  last one with that key, tagged "document"); under a key that only the workflow has it
  holds the workflow's first entry with that key (tagged "workflow"); under any other key
  it holds nothing; and the merged \<^verbatim>\<open>totalTimeMinutes\<close> is the sum of \<^verbatim>\<open>timeMinutes || 0\<close> over
  the merged list. In the scenario of the specification the merged list is step "1" with
  30 minutes, step "2" with 20 minutes, and the total is 50.
\<close>

theorem mergeMetrics_precedence_and_total:
  "(\<forall>k. entriesUnder k (stepsOf d) \<noteq> [] \<longrightarrow>
        entriesUnder k (mergedStepList (mergeMetrics now w d)) =
          [(last (entriesUnder k (stepsOf d)))\<lparr>stepSource := Some ''document''\<rparr>]) \<and>
   (\<forall>k. entriesUnder k (stepsOf d) = [] \<longrightarrow> entriesUnder k (stepsOf w) \<noteq> [] \<longrightarrow>
        entriesUnder k (mergedStepList (mergeMetrics now w d)) =
          [(hd (entriesUnder k (stepsOf w)))\<lparr>stepSource := Some ''workflow''\<rparr>]) \<and>
   (\<forall>k. entriesUnder k (stepsOf d) = [] \<longrightarrow> entriesUnder k (stepsOf w) = [] \<longrightarrow>
        entriesUnder k (mergedStepList (mergeMetrics now w d)) = []) \<and>
   totalTimeMinutes (mergeMetrics now w d) =
     sum_list (map minutesOrZero (mergedStepList (mergeMetrics now w d))) \<and>
   mergedStepList (mergeMetrics now
       (Some (metricsOf [stepEntry ''1'' 99, stepEntry ''2'' 20]))
       (Some (metricsOf [stepEntry ''1'' 30]))) =
     [(stepEntry ''1'' 30)\<lparr>stepSource := Some ''document''\<rparr>,
      (stepEntry ''2'' 20)\<lparr>stepSource := Some ''workflow''\<rparr>] \<and>
   totalTimeMinutes (mergeMetrics now
       (Some (metricsOf [stepEntry ''1'' 99, stepEntry ''2'' 20]))
       (Some (metricsOf [stepEntry ''1'' 30]))) = 50"
proof -
  have a: "\<forall>k. entriesUnder k (stepsOf d) \<noteq> [] \<longrightarrow>
        entriesUnder k (mergedStepList (mergeMetrics now w d)) =
          [(last (entriesUnder k (stepsOf d)))\<lparr>stepSource := Some ''document''\<rparr>]"
    by (simp add: merged_entries split: list.splits)
  have b: "\<forall>k. entriesUnder k (stepsOf d) = [] \<longrightarrow> entriesUnder k (stepsOf w) \<noteq> [] \<longrightarrow>
        entriesUnder k (mergedStepList (mergeMetrics now w d)) =
          [(hd (entriesUnder k (stepsOf w)))\<lparr>stepSource := Some ''workflow''\<rparr>]"
    by (simp add: merged_entries split: list.splits)
  have c: "\<forall>k. entriesUnder k (stepsOf d) = [] \<longrightarrow> entriesUnder k (stepsOf w) = [] \<longrightarrow>
        entriesUnder k (mergedStepList (mergeMetrics now w d)) = []"
    by (simp add: merged_entries)
  show ?thesis
    using a b c merged_total [of now w d] merge_scenario [of now] by blast
qed

theorem mergeMetrics_precedence_and_total_witness:
  "entriesUnder ''1'' (stepsOf (Some (metricsOf [stepEntry ''1'' 30, stepEntry ''1'' 40]))) \<noteq> [] \<and>
   entriesUnder ''1'' (mergedStepList (mergeMetrics 0
       (Some (metricsOf [stepEntry ''1'' 99, stepEntry ''2'' 20]))
       (Some (metricsOf [stepEntry ''1'' 30, stepEntry ''1'' 40])))) =
     [(stepEntry ''1'' 40)\<lparr>stepSource := Some ''document''\<rparr>] \<and>
   entriesUnder ''2'' (stepsOf (Some (metricsOf [stepEntry ''1'' 30, stepEntry ''1'' 40]))) = [] \<and>
   entriesUnder ''2'' (stepsOf (Some (metricsOf [stepEntry ''1'' 99, stepEntry ''2'' 20]))) \<noteq> [] \<and>
   entriesUnder ''2'' (mergedStepList (mergeMetrics 0
       (Some (metricsOf [stepEntry ''1'' 99, stepEntry ''2'' 20]))
       (Some (metricsOf [stepEntry ''1'' 30, stepEntry ''1'' 40])))) =
     [(stepEntry ''2'' 20)\<lparr>stepSource := Some ''workflow''\<rparr>] \<and>
   totalTimeMinutes (mergeMetrics 0
       (Some (metricsOf [stepEntry ''1'' 99, stepEntry ''2'' 20]))
       (Some (metricsOf [stepEntry ''1'' 30, stepEntry ''1'' 40]))) = 60"
proof -
  let ?w = "Some (metricsOf [stepEntry ''1'' 99, stepEntry ''2'' 20])"
  let ?d = "Some (metricsOf [stepEntry ''1'' 30, stepEntry ''1'' 40])"
  have h1: "entriesUnder ''1'' (stepsOf ?d) \<noteq> []"
    by code_simp
  have h2: "entriesUnder ''2'' (stepsOf ?d) = []"
    by code_simp
  have h3: "entriesUnder ''2'' (stepsOf ?w) \<noteq> []"
    by code_simp
  have l1: "last (entriesUnder ''1'' (stepsOf ?d)) = stepEntry ''1'' 40"
    by code_simp
  have l2: "hd (entriesUnder ''2'' (stepsOf ?w)) = stepEntry ''2'' 20"
    by code_simp
  have t: "totalTimeMinutes (mergeMetrics 0 ?w ?d) = 60"
    by code_simp
  note inst = mergeMetrics_precedence_and_total [of ?d 0 ?w]
  have c1: "entriesUnder ''1'' (mergedStepList (mergeMetrics 0 ?w ?d)) =
      [(stepEntry ''1'' 40)\<lparr>stepSource := Some ''document''\<rparr>]"
    using inst h1 l1 by metis
  have c2: "entriesUnder ''2'' (mergedStepList (mergeMetrics 0 ?w ?d)) =
      [(stepEntry ''2'' 20)\<lparr>stepSource := Some ''workflow''\<rparr>]"
    using inst h2 h3 l2 by metis
  show ?thesis using h1 h2 h3 c1 c2 t by blast
qed

section \<open>The document editor\<close>

text \<open>
  C9. For every document text and every update: when the section index is out of range
  of the sections of the freshly parsed document, \<^verbatim>\<open>updateDocumentCell\<close> fails with "invalid
  section index" naming it; when the section index is in range and the row index is out of
  range of that section's rows, it fails with "invalid row index"; when both are in range
  and the cell index is out of range of that row's cells, it fails with "invalid cell
  index". In each case the result is the error alone: no document is written or returned,
  and the content the caller holds is the argument, unchanged.
\<close>

theorem updateDocumentCell_validates_indices:
  "(outOfRange (sectionIndex u) (sections (parseDocumentContent eng documentContent)) \<longrightarrow>
      updateDocumentCell eng documentContent u = Inl (InvalidSectionIndex (sectionIndex u))) \<and>
   (\<not> outOfRange (sectionIndex u) (sections (parseDocumentContent eng documentContent)) \<longrightarrow>
    outOfRange (rowIndex u)
      (rows (sections (parseDocumentContent eng documentContent) ! nat (sectionIndex u))) \<longrightarrow>
      updateDocumentCell eng documentContent u = Inl (InvalidRowIndex (rowIndex u))) \<and>
   (\<not> outOfRange (sectionIndex u) (sections (parseDocumentContent eng documentContent)) \<longrightarrow>
    \<not> outOfRange (rowIndex u)
      (rows (sections (parseDocumentContent eng documentContent) ! nat (sectionIndex u))) \<longrightarrow>
    outOfRange (cellIndex u)
      (cells (rows (sections (parseDocumentContent eng documentContent) ! nat (sectionIndex u))
                ! nat (rowIndex u))) \<longrightarrow>
      updateDocumentCell eng documentContent u = Inl (InvalidCellIndex (cellIndex u)))"
  by (simp add: updateDocumentCell_def outOfRange_def Let_def)

theorem updateDocumentCell_validates_indices_witness:
  "length (sections (parseDocumentContent exampleEngine ''<table>'')) = 2 \<and>
   outOfRange (sectionIndex (cellAt 99 0 0)) (sections (parseDocumentContent exampleEngine ''<table>'')) \<and>
   updateDocumentCell exampleEngine ''<table>'' (cellAt 99 0 0) = Inl (InvalidSectionIndex 99) \<and>
   updateDocumentCell exampleEngine ''<table>'' (cellAt 1 1 0) = Inl (InvalidRowIndex 1) \<and>
   updateDocumentCell exampleEngine ''<table>'' (cellAt 0 1 2) = Inl (InvalidCellIndex 2) \<and>
   updateDocumentCell exampleEngine ''<table>'' (cellAt 0 1 1) = Inr ''Steps1Review2newRolesClerkreviews''"
proof -
  let ?doc = "parseDocumentContent exampleEngine ''<table>''"
  have n: "length (sections ?doc) = 2"
    by code_simp
  have s: "outOfRange (sectionIndex (cellAt 99 0 0)) (sections ?doc)"
    by code_simp
  have si: "sectionIndex (cellAt 99 0 0) = 99"
    by (simp add: cellAt_def)
  have a: "updateDocumentCell exampleEngine ''<table>'' (cellAt 99 0 0) = Inl (InvalidSectionIndex 99)"
    using updateDocumentCell_validates_indices [of "cellAt 99 0 0" exampleEngine "''<table>''"] s si
    by simp
  have r1: "\<not> outOfRange (sectionIndex (cellAt 1 1 0)) (sections ?doc)"
    by code_simp
  have r2: "outOfRange (rowIndex (cellAt 1 1 0)) (rows (sections ?doc ! nat (sectionIndex (cellAt 1 1 0))))"
    by code_simp
  have ri: "rowIndex (cellAt 1 1 0) = 1"
    by (simp add: cellAt_def)
  have b: "updateDocumentCell exampleEngine ''<table>'' (cellAt 1 1 0) = Inl (InvalidRowIndex 1)"
    using updateDocumentCell_validates_indices [of "cellAt 1 1 0" exampleEngine "''<table>''"] r1 r2 ri
    by simp
  have c1: "\<not> outOfRange (sectionIndex (cellAt 0 1 2)) (sections ?doc)"
    by code_simp
  have c2: "\<not> outOfRange (rowIndex (cellAt 0 1 2)) (rows (sections ?doc ! nat (sectionIndex (cellAt 0 1 2))))"
    by code_simp
  have c3: "outOfRange (cellIndex (cellAt 0 1 2))
      (cells (rows (sections ?doc ! nat (sectionIndex (cellAt 0 1 2))) ! nat (rowIndex (cellAt 0 1 2))))"
    by code_simp
  have ci: "cellIndex (cellAt 0 1 2) = 2"
    by (simp add: cellAt_def)
  have c: "updateDocumentCell exampleEngine ''<table>'' (cellAt 0 1 2) = Inl (InvalidCellIndex 2)"
    using updateDocumentCell_validates_indices [of "cellAt 0 1 2" exampleEngine "''<table>''"] c1 c2 c3 ci
    by simp
  have d: "updateDocumentCell exampleEngine ''<table>'' (cellAt 0 1 1) = Inr ''Steps1Review2newRolesClerkreviews''"
    by code_simp
  show ?thesis using n s a b c d by blast
qed

end
